theory Spec2Isabelle
  imports
    Complex_Main
    "HOL-Library.AList"
    "HOL-Library.Char_ord"
    "HOL-Library.List_Lexorder"
    "HOL-Library.Log_Nat"
    "HOL-Library.Multiset"
    "HOL-Library.Sublist"
begin

section \<open>Data model of the weather pipeline\<close>

text \<open>
  The embedding follows \<^verbatim>\<open>weather.go\<close> (the version with the National Weather Service
  fallback) and the configuration and batch code that drives it. A Go \<^verbatim>\<open>float64\<close> that
  arrives through \<^verbatim>\<open>encoding/json\<close> is finite, and finite doubles are ordered as the reals
  they denote, so every comparison of the aggregator is the comparison of reals. Such a
  value is kept as the real it denotes.
\<close>

type_synonym float64 = real

text \<open>
  The result of a \<^verbatim>\<open>float64\<close> operation is rounded and can be infinite or not a number.
  The sign of a zero is not represented.
\<close>

datatype f64 = Finite real | PosInf | NegInf | NaN

text \<open>The integer part of the binary logarithm of a positive real, from a bit length.\<close>

definition ilog2 :: "real \<Rightarrow> int" where
  "ilog2 x = (if 1 \<le> x then bitlen \<lfloor>x\<rfloor> - 1 else - bitlen (\<lceil>1 / x\<rceil> - 1))"

text \<open>Rounding to the nearest integer, a tie to the even one.\<close>

definition round_half_even :: "real \<Rightarrow> int" where
  "round_half_even y =
     (let f = \<lfloor>y\<rfloor>; d = y - of_int f
      in if d < 1 / 2 then f else if 1 / 2 < d then f + 1 else if even f then f else f + 1)"

text \<open>
  Rounding of a real to binary64, to nearest with ties to even: 53 significant bits, the
  least exponent \<open>- 1074\<close>, and an infinity once the rounded value reaches \<open>2 ^ 1024\<close>.
\<close>

definition round_f64 :: "real \<Rightarrow> f64" where
  "round_f64 x =
     (if x = 0 then Finite 0
      else
        let q = 2 powi (max (ilog2 \<bar>x\<bar> - 52) (- 1074));
            y = of_int (round_half_even (x / q)) * q
        in if 2 ^ 1024 \<le> \<bar>y\<bar> then (if 0 < x then PosInf else NegInf) else Finite y)"

text \<open>
  The three operations the code uses. A division by zero (which the code never performs)
  is the one by the positive zero.
\<close>

fun f64_mul :: "f64 \<Rightarrow> f64 \<Rightarrow> f64" where
  "f64_mul (Finite x) (Finite y) = round_f64 (x * y)"
| "f64_mul NaN b = NaN"
| "f64_mul a NaN = NaN"
| "f64_mul (Finite x) PosInf = (if 0 < x then PosInf else if x < 0 then NegInf else NaN)"
| "f64_mul (Finite x) NegInf = (if 0 < x then NegInf else if x < 0 then PosInf else NaN)"
| "f64_mul PosInf (Finite y) = (if 0 < y then PosInf else if y < 0 then NegInf else NaN)"
| "f64_mul NegInf (Finite y) = (if 0 < y then NegInf else if y < 0 then PosInf else NaN)"
| "f64_mul PosInf PosInf = PosInf"
| "f64_mul PosInf NegInf = NegInf"
| "f64_mul NegInf PosInf = NegInf"
| "f64_mul NegInf NegInf = PosInf"

fun f64_div :: "f64 \<Rightarrow> f64 \<Rightarrow> f64" where
  "f64_div (Finite x) (Finite y) =
     (if y = 0 then (if x = 0 then NaN else if 0 < x then PosInf else NegInf)
      else round_f64 (x / y))"
| "f64_div NaN b = NaN"
| "f64_div a NaN = NaN"
| "f64_div (Finite x) PosInf = Finite 0"
| "f64_div (Finite x) NegInf = Finite 0"
| "f64_div PosInf (Finite y) = (if 0 \<le> y then PosInf else NegInf)"
| "f64_div NegInf (Finite y) = (if 0 \<le> y then NegInf else PosInf)"
| "f64_div PosInf PosInf = NaN"
| "f64_div PosInf NegInf = NaN"
| "f64_div NegInf PosInf = NaN"
| "f64_div NegInf NegInf = NaN"

fun f64_add :: "f64 \<Rightarrow> f64 \<Rightarrow> f64" where
  "f64_add (Finite x) (Finite y) = round_f64 (x + y)"
| "f64_add NaN b = NaN"
| "f64_add a NaN = NaN"
| "f64_add (Finite x) PosInf = PosInf"
| "f64_add (Finite x) NegInf = NegInf"
| "f64_add PosInf (Finite y) = PosInf"
| "f64_add NegInf (Finite y) = NegInf"
| "f64_add PosInf PosInf = PosInf"
| "f64_add PosInf NegInf = NaN"
| "f64_add NegInf PosInf = NaN"
| "f64_add NegInf NegInf = NegInf"

text \<open>
  A \<^verbatim>\<open>time.Time\<close> is observed by the code through two methods only:
  \<^verbatim>\<open>Format("2006-01-02")\<close> and \<^verbatim>\<open>Unix()\<close>.
\<close>

record Time =
  Format_date :: string
  Unix :: int

definition zeroTime :: Time where
  "zeroTime = \<lparr>Format_date = ''0001-01-01'', Unix = - 62135596800\<rparr>"

record URL =
  Scheme :: string
  Host :: string

record GeoResponse =
  Lat :: float64
  Lon :: float64
  Name :: string

record CurrentConditions =
  Temp :: f64
  FeelsLike :: f64
  Humidity :: int
  WindSpeed :: f64
  Weather :: "string list"

record DailyEntry =
  Dt :: int
  Temp_Min :: float64
  Temp_Max :: float64
  Daily_Weather :: "string list"

record WeatherResponse =
  Current :: CurrentConditions
  Daily :: "DailyEntry list"

record NWSPointResponse =
  Forecast_URL :: string
  ForecastHourly :: string
  ObservationStations :: string
  City :: string

text \<open>
  A forecast period; the fields the code never reads (end time, wind, detailed forecast)
  are left out.
\<close>

record Period =
  StartTime :: string
  Temperature :: float64
  ShortForecast :: string
  IsDaytime :: bool

record Observation =
  obs_Temperature :: float64
  obs_WindSpeed :: float64
  obs_RelativeHumidity :: float64
  obs_HeatIndex :: float64
  obs_TextDescription :: string

record ForecastEntry =
  Date :: int
  TempMin :: float64
  TempMax :: float64
  fc_Condition :: string

record WeatherData =
  LocationID :: string
  LocationName :: string
  Timestamp :: int
  wd_Temperature :: f64
  wd_FeelsLike :: f64
  wd_TempMin :: float64
  wd_TempMax :: float64
  wd_Humidity :: int
  wd_WindSpeed :: f64
  Condition :: string
  ForecastDays :: int
  Forecast :: "ForecastEntry list"
  Summary :: string
  wd_IsMetric :: bool

record Config =
  APIKey :: string
  ZipCodes :: "string list"
  OutputFormat :: string
  OutputPath :: string
  IsMetric :: bool
  KafkaBroker :: string
  KafkaTopic :: string
  Interval :: int
  Verbose :: bool

definition FormatJSON :: string where "FormatJSON = ''json''"
definition FormatCSV :: string where "FormatCSV = ''csv''"
definition FormatText :: string where "FormatText = ''text''"
definition FormatKafka :: string where "FormatKafka = ''kafka''"

subsection \<open>Errors, panics and the outside world\<close>

datatype endpoint = Geocode | OneCall | Points | ForecastEP | Stations | Observations

datatype error =
    InvalidURL
  | MustUseHTTPS
  | HostNotAllowed string
  | URLValidationFailed error
  | RequestFailed endpoint
  | StatusCode endpoint nat
  | DecodeFailed endpoint
  | NoObservationStations
  | FailedToGetCoordinates error
  | FailedToGetWeather error
  | ConfigError string

datatype panic = MakesliceLenOutOfRange | IndexOutOfRange

text \<open>
  A Go function that returns \<^verbatim>\<open>(value, error)\<close> and may also panic: the panic unwinds
  through every caller, since nothing in the program recovers.
\<close>

datatype 'a outcome = Panic panic | Failure error | Ok 'a

text \<open>
  What one HTTP GET with JSON decoding can yield: no response at all (the request could
  not be built or sent), or a status code together with the body as decoded into the
  target type (\<open>None\<close> when the decoder rejects it).
\<close>

datatype 'a response = NoResponse | Status nat "'a option"

datatype chat_result = ChatError string | ChatChoices "string list"

text \<open>
  Everything the program reads from outside itself: the standard library's parsers and
  formatters, the clock, the environment and the upstream services, each keyed by the
  URL or text the code hands over.
\<close>

record world =
  url_Parse :: "string \<Rightarrow> URL option"
  time_Parse :: "string \<Rightarrow> Time option"
  today :: string
  now :: int
  fmt_f :: "float64 \<Rightarrow> string"
  fmt_4f :: "float64 \<Rightarrow> string"
  fmt_text :: "string \<Rightarrow> string \<Rightarrow> WeatherResponse \<Rightarrow> string"
  get_geocode :: "string \<Rightarrow> GeoResponse response"
  get_onecall :: "string \<Rightarrow> WeatherResponse response"
  get_points :: "string \<Rightarrow> NWSPointResponse response"
  get_forecast :: "string \<Rightarrow> Period list response"
  get_stations :: "string \<Rightarrow> string list response"
  get_observation :: "string \<Rightarrow> Observation response"
  OPENAI_API_KEY :: string
  chat :: "string \<Rightarrow> chat_result"

section \<open>URL validation and coordinate resolution\<close>

definition geoEndpoint :: string where
  "geoEndpoint = ''https://api.openweathermap.org/geo/1.0/zip''"

definition weatherEndpoint :: string where
  "weatherEndpoint = ''https://api.openweathermap.org/data/3.0/onecall''"

definition nwsPointsEndpoint :: string where
  "nwsPointsEndpoint = ''https://api.weather.gov/points''"

definition isValidZip :: "string \<Rightarrow> bool" where
  "isValidZip zipCode =
     (if length zipCode \<noteq> 5 then False
      else \<not> list_ex (\<lambda>r. r < CHR ''0'' \<or> r > CHR ''9'') zipCode)"

definition allowedHosts :: "string list" where
  "allowedHosts = [''openweathermap.org'', ''api.weather.gov'']"

text \<open>\<^verbatim>\<open>strings.HasSuffix(s, suffix)\<close>.\<close>

definition HasSuffix :: "string \<Rightarrow> string \<Rightarrow> bool" where
  "HasSuffix s sfx = suffix sfx s"

text \<open>The result is the returned error; \<open>None\<close> is Go's \<^verbatim>\<open>nil\<close>.\<close>

definition validateURL :: "(string \<Rightarrow> URL option) \<Rightarrow> string \<Rightarrow> error option" where
  "validateURL parse rawURL =
     (case parse rawURL of
        None \<Rightarrow> Some InvalidURL
      | Some parsedURL \<Rightarrow>
          if Scheme parsedURL \<noteq> ''https'' then Some MustUseHTTPS
          else if \<not> list_ex (\<lambda>host. HasSuffix (Host parsedURL) host) allowedHosts
            then Some (HostNotAllowed (Host parsedURL))
          else None)"

text \<open>
  The shared shape of every upstream call: transport error, then status check, then
  decoding.
\<close>

definition fetch :: "endpoint \<Rightarrow> 'a response \<Rightarrow> error + 'a" where
  "fetch ep r =
     (case r of
        NoResponse \<Rightarrow> Inl (RequestFailed ep)
      | Status code body \<Rightarrow>
          if code \<noteq> 200 then Inl (StatusCode ep code)
          else (case body of None \<Rightarrow> Inl (DecodeFailed ep) | Some v \<Rightarrow> Inr v))"

record zipEntry =
  lat :: float64
  lon :: float64
  city :: string

definition zipCoords :: "(string \<times> zipEntry) list" where
  "zipCoords =
     [(''90210'', \<lparr>lat = 34.0901, lon = - 118.4065, city = ''Beverly Hills''\<rparr>),
      (''10001'', \<lparr>lat = 40.7501, lon = - 73.9996, city = ''New York''\<rparr>),
      (''60601'', \<lparr>lat = 41.8841, lon = - 87.6277, city = ''Chicago''\<rparr>),
      (''02108'', \<lparr>lat = 42.3581, lon = - 71.0636, city = ''Boston''\<rparr>),
      (''94102'', \<lparr>lat = 37.7794, lon = - 122.4184, city = ''San Francisco''\<rparr>),
      (''98101'', \<lparr>lat = 47.6097, lon = - 122.3331, city = ''Seattle''\<rparr>),
      (''33101'', \<lparr>lat = 25.7743, lon = - 80.1937, city = ''Miami''\<rparr>),
      (''75201'', \<lparr>lat = 32.7795, lon = - 96.8022, city = ''Dallas''\<rparr>),
      (''77001'', \<lparr>lat = 29.7604, lon = - 95.3698, city = ''Houston''\<rparr>),
      (''85001'', \<lparr>lat = 33.4484, lon = - 112.0740, city = ''Phoenix''\<rparr>)]"

definition getNWSCoordinates :: "string \<Rightarrow> error + (float64 \<times> float64 \<times> string)" where
  "getNWSCoordinates zipCode =
     (case map_of zipCoords zipCode of
        Some coords \<Rightarrow> Inr (lat coords, lon coords, city coords)
      | None \<Rightarrow> Inr (40.7128, - 74.0060, ''New York''))"

definition getCoordinates ::
  "world \<Rightarrow> string \<Rightarrow> string \<Rightarrow> error + (float64 \<times> float64 \<times> string)" where
  "getCoordinates w zipCode apiKey =
     (if apiKey = [] then getNWSCoordinates zipCode
      else
        let urlStr = geoEndpoint @ ''?zip='' @ zipCode @ '',US&appid='' @ apiKey in
        case validateURL (url_Parse w) urlStr of
          Some err \<Rightarrow> Inl (URLValidationFailed err)
        | None \<Rightarrow>
            (case fetch Geocode (get_geocode w urlStr) of
               Inl err \<Rightarrow> Inl err
             | Inr geo \<Rightarrow> Inr (Lat geo, Lon geo, Name geo)))"

section \<open>The fallback fetch and its daily aggregation\<close>

text \<open>\<^verbatim>\<open>celsius*9/5 + 32\<close>: three operations, each rounded.\<close>

definition celsiusToFahrenheit :: "f64 \<Rightarrow> f64" where
  "celsiusToFahrenheit celsius =
     f64_add (f64_div (f64_mul celsius (Finite 9)) (Finite 5)) (Finite 32)"

text \<open>
  Go's conversion \<^verbatim>\<open>int(f)\<close> drops the fraction (towards zero). The type \<^verbatim>\<open>int\<close> has 64 bits
  on the platforms the program is built for; the language leaves the result for a value
  outside its range to the implementation, and on amd64 it is the least \<^verbatim>\<open>int\<close>.
\<close>

definition float_to_int :: "float64 \<Rightarrow> int" where
  "float_to_int x =
     (let t = (if 0 \<le> x then \<lfloor>x\<rfloor> else \<lceil>x\<rceil>)
      in if - (2 ^ 63) \<le> t \<and> t < 2 ^ 63 then t else - (2 ^ 63))"

record dayData =
  date :: Time
  minTemp :: float64
  maxTemp :: float64
  description :: string

text \<open>
  The map \<^verbatim>\<open>dayMap\<close> is kept as an association list with distinct keys. Go iterates a
  map in no fixed order, and the code sorts the keys before it reads them, so the order
  of the association list is never observed.
\<close>

type_synonym dayMap = "(string \<times> dayData) list"

text \<open>One pass of the loop over the periods.\<close>

definition dayMap_step :: "(string \<Rightarrow> Time option) \<Rightarrow> dayMap \<Rightarrow> Period \<Rightarrow> dayMap" where
  "dayMap_step parse dm period =
     (case parse (StartTime period) of
        None \<Rightarrow> dm
      | Some startTime \<Rightarrow>
          let dateKey = Format_date startTime;
              day =
                (case map_of dm dateKey of
                   None \<Rightarrow>
                     \<lparr>date = startTime, minTemp = Temperature period,
                      maxTemp = Temperature period, description = ShortForecast period\<rparr>
                 | Some day0 \<Rightarrow>
                     let day1 =
                           (if IsDaytime period \<and> Temperature period > maxTemp day0
                            then day0\<lparr>maxTemp := Temperature period,
                                      description := ShortForecast period\<rparr>
                            else day0);
                         day2 =
                           (if \<not> IsDaytime period \<and> Temperature period < minTemp day1
                            then day1\<lparr>minTemp := Temperature period\<rparr>
                            else day1)
                     in day2)
          in AList.update dateKey day dm)"

definition getNWSWeather_dayMap :: "(string \<Rightarrow> Time option) \<Rightarrow> Period list \<Rightarrow> dayMap" where
  "getNWSWeather_dayMap parse periods = foldl (dayMap_step parse) [] periods"

text \<open>The keys of the map, sorted as \<^verbatim>\<open>sort.Strings\<close> does (bytewise).\<close>

definition getNWSWeather_days :: "dayMap \<Rightarrow> string list" where
  "getNWSWeather_days dm = sort (map fst dm)"

text \<open>Reading a Go map at a missing key gives the zero value.\<close>

definition dayMap_at :: "dayMap \<Rightarrow> string \<Rightarrow> dayData" where
  "dayMap_at dm k =
     (case map_of dm k of
        Some d \<Rightarrow> d
      | None \<Rightarrow> \<lparr>date = zeroTime, minTemp = 0, maxTemp = 0, description = []\<rparr>)"

definition dailyData :: "dayData \<Rightarrow> DailyEntry" where
  "dailyData d =
     \<lparr>Dt = Unix (date d), Temp_Min = minTemp d, Temp_Max = maxTemp d,
      Daily_Weather = [description d]\<rparr>"

text \<open>
  The dates of the final sequence, in order: today first when the map has it, then the
  sorted keys without today.
\<close>

definition getNWSWeather_dates :: "string \<Rightarrow> dayMap \<Rightarrow> string list" where
  "getNWSWeather_dates tdy dm =
     (case map_of dm tdy of Some dayData \<Rightarrow> [tdy] | None \<Rightarrow> [])
     @ filter (\<lambda>day. day \<noteq> tdy) (getNWSWeather_days dm)"

definition getNWSWeather_daily :: "string \<Rightarrow> dayMap \<Rightarrow> DailyEntry list" where
  "getNWSWeather_daily tdy dm =
     (case map_of dm tdy of Some d \<Rightarrow> [dailyData d] | None \<Rightarrow> [])
     @ map (\<lambda>day. dailyData (dayMap_at dm day))
         (filter (\<lambda>day. day \<noteq> tdy) (getNWSWeather_days dm))"

text \<open>
  The conversion of the fetched observation and forecast into the unified response (the
  part of \<^verbatim>\<open>getNWSWeather\<close> after the four calls).
\<close>

definition getNWSWeather_convert ::
  "(string \<Rightarrow> Time option) \<Rightarrow> string \<Rightarrow> Observation \<Rightarrow> Period list \<Rightarrow> WeatherResponse" where
  "getNWSWeather_convert parse tdy obsData periods =
     (let feelsLike =
            (if obs_HeatIndex obsData \<noteq> 0 then obs_HeatIndex obsData
             else obs_Temperature obsData)
      in \<lparr>Current =
             \<lparr>Temp = celsiusToFahrenheit (Finite (obs_Temperature obsData)),
              FeelsLike = celsiusToFahrenheit (Finite feelsLike),
              Humidity = float_to_int (obs_RelativeHumidity obsData),
              WindSpeed = f64_mul (Finite (obs_WindSpeed obsData)) (round_f64 2.237),
              Weather = [obs_TextDescription obsData]\<rparr>,
           Daily = getNWSWeather_daily tdy (getNWSWeather_dayMap parse periods)\<rparr>)"

definition pointsURL :: "world \<Rightarrow> float64 \<Rightarrow> float64 \<Rightarrow> string" where
  "pointsURL w la lo = nwsPointsEndpoint @ ''/'' @ fmt_4f w la @ '','' @ fmt_4f w lo"

definition observationURL :: "string \<Rightarrow> string" where
  "observationURL stationID =
     ''https://api.weather.gov/stations/'' @ stationID @ ''/observations/latest''"

definition getNWSWeather :: "world \<Rightarrow> float64 \<Rightarrow> float64 \<Rightarrow> error + WeatherResponse" where
  "getNWSWeather w la lo =
     (case validateURL (url_Parse w) (pointsURL w la lo) of
        Some err \<Rightarrow> Inl (URLValidationFailed err)
      | None \<Rightarrow>
     (case fetch Points (get_points w (pointsURL w la lo)) of
        Inl err \<Rightarrow> Inl err
      | Inr pointsData \<Rightarrow>
     (case fetch ForecastEP (get_forecast w (Forecast_URL pointsData)) of
        Inl err \<Rightarrow> Inl err
      | Inr periods \<Rightarrow>
     (case fetch Stations (get_stations w (ObservationStations pointsData)) of
        Inl err \<Rightarrow> Inl err
      | Inr features \<Rightarrow>
     (case features of
        [] \<Rightarrow> Inl NoObservationStations
      | stationID # _ \<Rightarrow>
     (case fetch Observations (get_observation w (observationURL stationID)) of
        Inl err \<Rightarrow> Inl err
      | Inr obsData \<Rightarrow>
          Inr (getNWSWeather_convert (time_Parse w) (today w) obsData periods)))))))"

definition getWeather :: "world \<Rightarrow> float64 \<Rightarrow> float64 \<Rightarrow> string \<Rightarrow> error + WeatherResponse" where
  "getWeather w la lo apiKey =
     (if apiKey = [] then getNWSWeather w la lo
      else
        let units = ''imperial'';
            urlStr = weatherEndpoint @ ''?lat='' @ fmt_f w la @ ''&lon='' @ fmt_f w lo
              @ ''&exclude=minutely,hourly,alerts&units='' @ units @ ''&appid='' @ apiKey
        in case validateURL (url_Parse w) urlStr of
             Some err \<Rightarrow> Inl (URLValidationFailed err)
           | None \<Rightarrow> fetch OneCall (get_onecall w urlStr))"

section \<open>Per-location processing and the batch\<close>

text \<open>
  The days the consumers read: indices \<open>1 \<le> i < days\<close> of \<^verbatim>\<open>Daily\<close>, where \<open>days\<close> is its
  length capped at 7. With no entry at all the range is empty.
\<close>

definition forecastDays_of :: "WeatherResponse \<Rightarrow> int" where
  "forecastDays_of weather =
     (if int (length (Daily weather)) > 7 then 7 else int (length (Daily weather)))"

definition forecast_range :: "WeatherResponse \<Rightarrow> DailyEntry list" where
  "forecast_range weather =
     take (nat (forecastDays_of weather - 1)) (drop 1 (Daily weather))"

text \<open>
  The loop that fills \<^verbatim>\<open>Forecast\<close>: each day's \<^verbatim>\<open>Weather[0]\<close> is read without a length
  check, which panics on an empty slice.
\<close>

fun forecast_loop :: "DailyEntry list \<Rightarrow> ForecastEntry list outcome" where
  "forecast_loop [] = Ok []"
| "forecast_loop (day # rest) =
     (case Daily_Weather day of
        [] \<Rightarrow> Panic IndexOutOfRange
      | d # _ \<Rightarrow>
          (case forecast_loop rest of
             Ok fs \<Rightarrow>
               Ok (\<lparr>Date = Dt day, TempMin = Temp_Min day, TempMax = Temp_Max day,
                     fc_Condition = d\<rparr> # fs)
           | Panic p \<Rightarrow> Panic p
           | Failure e \<Rightarrow> Failure e))"

definition buildForecastText ::
  "world \<Rightarrow> string \<Rightarrow> string \<Rightarrow> WeatherResponse \<Rightarrow> string outcome" where
  "buildForecastText w cty zipCode weather =
     (case Weather (Current weather) of
        [] \<Rightarrow> Panic IndexOutOfRange
      | _ # _ \<Rightarrow>
          if list_ex (\<lambda>day. Daily_Weather day = []) (forecast_range weather)
          then Panic IndexOutOfRange
          else Ok (fmt_text w cty zipCode weather))"

definition summarizeForecast :: "world \<Rightarrow> string \<Rightarrow> string outcome" where
  "summarizeForecast w data =
     (if OPENAI_API_KEY w = [] then Ok ''Missing OPENAI_API_KEY environment variable''
      else
        case chat w data of
          ChatError e \<Rightarrow> Ok (''OpenAI API error: '' @ e)
        | ChatChoices [] \<Rightarrow> Panic IndexOutOfRange
        | ChatChoices (c # _) \<Rightarrow> Ok c)"

definition GetLocationWeather :: "world \<Rightarrow> string \<Rightarrow> Config \<Rightarrow> WeatherData outcome" where
  "GetLocationWeather w zipCode config =
     (case getCoordinates w zipCode (APIKey config) of
        Inl err \<Rightarrow> Failure (FailedToGetCoordinates err)
      | Inr (la, lo, cty) \<Rightarrow>
     (case getWeather w la lo (APIKey config) of
        Inl err \<Rightarrow> Failure (FailedToGetWeather err)
      | Inr weather \<Rightarrow>
          let weatherData =
                \<lparr>LocationID = zipCode, LocationName = cty, Timestamp = now w,
                 wd_Temperature = Temp (Current weather),
                 wd_FeelsLike = FeelsLike (Current weather),
                 wd_TempMin = 0, wd_TempMax = 0,
                 wd_Humidity = Humidity (Current weather),
                 wd_WindSpeed = WindSpeed (Current weather),
                 Condition =
                   (case Weather (Current weather) of [] \<Rightarrow> [] | d # _ \<Rightarrow> d),
                 ForecastDays = 0, Forecast = [], Summary = [],
                 wd_IsMetric = IsMetric config\<rparr>;
              forecastDays = forecastDays_of weather
          in
            if forecastDays - 1 < 0 then Panic MakesliceLenOutOfRange
            else
              (case forecast_loop (forecast_range weather) of
                 Panic p \<Rightarrow> Panic p
               | Failure e \<Rightarrow> Failure e
               | Ok fc \<Rightarrow>
                   (let weatherData1 =
                          weatherData\<lparr>ForecastDays := forecastDays - 1, Forecast := fc\<rparr>
                    in
                      if OutputFormat config = FormatText then
                        (case buildForecastText w cty zipCode weather of
                           Panic p \<Rightarrow> Panic p
                         | Failure e \<Rightarrow> Failure e
                         | Ok forecastText \<Rightarrow>
                             (case summarizeForecast w forecastText of
                                Panic p \<Rightarrow> Panic p
                              | Failure e \<Rightarrow> Failure e
                              | Ok s \<Rightarrow> Ok (weatherData1\<lparr>Summary := s\<rparr>)))
                      else Ok weatherData1))))"

text \<open>
  The batch loop. Its result is the list of collected records together with the log of
  skipped ZIP codes; printing the records is not modelled. A panic in one location ends
  the loop, as it ends the process.
\<close>

fun ProcessLocations_loop ::
  "world \<Rightarrow> Config \<Rightarrow> string list \<Rightarrow> WeatherData list \<Rightarrow> (string \<times> error) list \<Rightarrow>
     (WeatherData list \<times> (string \<times> error) list) outcome" where
  "ProcessLocations_loop w config [] weatherDataList logged = Ok (weatherDataList, logged)"
| "ProcessLocations_loop w config (zipCode # zips) weatherDataList logged =
     (case GetLocationWeather w zipCode config of
        Panic p \<Rightarrow> Panic p
      | Failure err \<Rightarrow>
          ProcessLocations_loop w config zips weatherDataList (logged @ [(zipCode, err)])
      | Ok weatherData \<Rightarrow>
          ProcessLocations_loop w config zips (weatherDataList @ [weatherData]) logged)"

definition ProcessLocations ::
  "world \<Rightarrow> Config \<Rightarrow> (WeatherData list \<times> (string \<times> error) list) outcome" where
  "ProcessLocations w config = ProcessLocations_loop w config (ZipCodes config) [] []"

text \<open>The validation that runs before any network call (an empty API key is rejected).\<close>

definition ValidateConfig :: "Config \<Rightarrow> error option" where
  "ValidateConfig config =
     (if APIKey config = [] then Some (ConfigError ''OpenWeatherMap API key is required'')
      else if ZipCodes config = [] then Some (ConfigError ''at least one ZIP code is required'')
      else if list_ex (\<lambda>zipCode. \<not> isValidZip zipCode) (ZipCodes config)
        then Some (ConfigError ''invalid ZIP code format'')
      else if OutputFormat config \<notin> set [FormatJSON, FormatCSV, FormatText, FormatKafka]
        then Some (ConfigError ''invalid output format'')
      else if OutputFormat config = FormatKafka \<and> KafkaBroker config = []
        then Some (ConfigError ''kafka broker is required when using kafka output format'')
      else None)"

text \<open>One run of \<^verbatim>\<open>main\<close> without a polling interval.\<close>

definition main_once ::
  "world \<Rightarrow> Config \<Rightarrow> (WeatherData list \<times> (string \<times> error) list) outcome" where
  "main_once w config =
     (case ValidateConfig config of
        Some err \<Rightarrow> Failure err
      | None \<Rightarrow> ProcessLocations w config)"

section \<open>Specification-side definitions\<close>

text \<open>
  The calendar date a period falls on, when its start timestamp parses, and the periods
  of one date in their order of arrival.
\<close>

definition period_key :: "(string \<Rightarrow> Time option) \<Rightarrow> Period \<Rightarrow> string option" where
  "period_key parse p = map_option Format_date (parse (StartTime p))"

definition parseable :: "(string \<Rightarrow> Time option) \<Rightarrow> Period \<Rightarrow> bool" where
  "parseable parse p = (parse (StartTime p) \<noteq> None)"

definition periods_on :: "(string \<Rightarrow> Time option) \<Rightarrow> string \<Rightarrow> Period list \<Rightarrow> Period list" where
  "periods_on parse k periods = filter (\<lambda>p. period_key parse p = Some k) periods"

definition first_on :: "(string \<Rightarrow> Time option) \<Rightarrow> string \<Rightarrow> Period list \<Rightarrow> Period option" where
  "first_on parse k periods = List.find (\<lambda>p. period_key parse p = Some k) periods"

definition date_keys :: "(string \<Rightarrow> Time option) \<Rightarrow> Period list \<Rightarrow> string list" where
  "date_keys parse periods = List.map_filter (period_key parse) periods"

text \<open>
  The bucket rule in the words of the specification: the first period of a date seeds the
  bucket; a later daytime period above the running maximum raises it and brings its
  condition text; a later nighttime period below the running minimum lowers it.
\<close>

definition spec_seed :: "Period \<Rightarrow> Time \<Rightarrow> dayData" where
  "spec_seed p t =
     \<lparr>date = t, minTemp = Temperature p, maxTemp = Temperature p,
      description = ShortForecast p\<rparr>"

definition spec_widen :: "dayData \<Rightarrow> Period \<Rightarrow> dayData" where
  "spec_widen b p =
     (if IsDaytime p \<and> Temperature p > maxTemp b
        then b\<lparr>maxTemp := Temperature p, description := ShortForecast p\<rparr>
      else if \<not> IsDaytime p \<and> Temperature p < minTemp b
        then b\<lparr>minTemp := Temperature p\<rparr>
      else b)"

fun spec_bucket :: "(string \<Rightarrow> Time option) \<Rightarrow> Period list \<Rightarrow> dayData option" where
  "spec_bucket parse [] = None"
| "spec_bucket parse (p # ps) =
     map_option (\<lambda>t. foldl spec_widen (spec_seed p t) ps) (parse (StartTime p))"

definition temps :: "dayData \<Rightarrow> float64 \<times> float64" where
  "temps b = (minTemp b, maxTemp b)"

definition entry_temps :: "DailyEntry \<Rightarrow> float64 \<times> float64" where
  "entry_temps e = (Temp_Min e, Temp_Max e)"

text \<open>
  The finite values of binary64: an integer of less than 53 bits times a power of two
  with an exponent from \<open>- 1074\<close> to \<open>971\<close>.
\<close>

definition is_f64 :: "real \<Rightarrow> bool" where
  "is_f64 x =
     (\<exists>m e. x = of_int m * 2 powi e \<and> \<bar>m\<bar> < 2 ^ 53 \<and> - 1074 \<le> e \<and> e \<le> 971)"

text \<open>
  Membership of a host in a provider's domain, as the words "belongs to the domain" are
  commonly read: the domain itself or a name below it.
\<close>

definition in_domain :: "string \<Rightarrow> string \<Rightarrow> bool" where
  "in_domain host d = (host = d \<or> HasSuffix host (''.'' @ d))"

definition spec_host_allowed :: "string \<Rightarrow> bool" where
  "spec_host_allowed host =
     (in_domain host ''openweathermap.org'' \<or> in_domain host ''api.weather.gov'')"

text \<open>The forecast entry made from one day of a response that carries a description.\<close>

definition spec_forecast_entry :: "DailyEntry \<Rightarrow> ForecastEntry" where
  "spec_forecast_entry day =
     \<lparr>Date = Dt day, TempMin = Temp_Min day, TempMax = Temp_Max day,
      fc_Condition = hd (Daily_Weather day)\<rparr>"

text \<open>
  What the batch loop collects and what it logs, when no location panics: the records of
  the locations that succeed and the errors of those that fail, each in input order.
\<close>

definition collected :: "world \<Rightarrow> Config \<Rightarrow> string list \<Rightarrow> WeatherData list" where
  "collected w config zips =
     List.map_filter
       (\<lambda>zipCode. case GetLocationWeather w zipCode config of
                    Ok wd \<Rightarrow> Some wd | Failure err \<Rightarrow> None | Panic p \<Rightarrow> None) zips"

definition skipped :: "world \<Rightarrow> Config \<Rightarrow> string list \<Rightarrow> (string \<times> error) list" where
  "skipped w config zips =
     List.map_filter
       (\<lambda>zipCode. case GetLocationWeather w zipCode config of
                    Ok wd \<Rightarrow> None | Failure err \<Rightarrow> Some (zipCode, err) | Panic p \<Rightarrow> None) zips"

section \<open>Concrete inputs\<close>

text \<open>
  What \<^verbatim>\<open>time.Parse(time.RFC3339, s)\<close> returns on the timestamps used below (Eastern
  daylight time), and \<open>None\<close> on everything else that occurs.
\<close>

definition time_Parse_example :: "string \<Rightarrow> Time option" where
  "time_Parse_example =
     map_of
       [(''2024-05-01T02:00:00-04:00'', \<lparr>Format_date = ''2024-05-01'', Unix = 1714543200\<rparr>),
        (''2024-05-01T08:00:00-04:00'', \<lparr>Format_date = ''2024-05-01'', Unix = 1714564800\<rparr>),
        (''2024-05-01T20:00:00-04:00'', \<lparr>Format_date = ''2024-05-01'', Unix = 1714608000\<rparr>),
        (''2024-05-02T08:00:00-04:00'', \<lparr>Format_date = ''2024-05-02'', Unix = 1714651200\<rparr>),
        (''2024-05-03T08:00:00-04:00'', \<lparr>Format_date = ''2024-05-03'', Unix = 1714737600\<rparr>),
        (''2024-05-04T08:00:00-04:00'', \<lparr>Format_date = ''2024-05-04'', Unix = 1714824000\<rparr>),
        (''2024-05-05T08:00:00-04:00'', \<lparr>Format_date = ''2024-05-05'', Unix = 1714910400\<rparr>),
        (''2024-05-06T08:00:00-04:00'', \<lparr>Format_date = ''2024-05-06'', Unix = 1714996800\<rparr>),
        (''2024-05-07T08:00:00-04:00'', \<lparr>Format_date = ''2024-05-07'', Unix = 1715083200\<rparr>),
        (''2024-05-08T08:00:00-04:00'', \<lparr>Format_date = ''2024-05-08'', Unix = 1715169600\<rparr>)]"

definition mk_period :: "string \<Rightarrow> bool \<Rightarrow> float64 \<Rightarrow> string \<Rightarrow> Period" where
  "mk_period start dayflag temp txt =
     \<lparr>StartTime = start, Temperature = temp, ShortForecast = txt, IsDaytime = dayflag\<rparr>"

definition example_periods :: "Period list" where
  "example_periods =
     [mk_period ''2024-05-01T08:00:00-04:00'' True 70 ''Sunny'',
      mk_period ''2024-05-01T20:00:00-04:00'' False 55 ''Clear'',
      mk_period ''2024-05-02T08:00:00-04:00'' True 72 ''Cloudy'']"

definition eight_days :: "Period list" where
  "eight_days =
     [mk_period ''2024-05-01T08:00:00-04:00'' True 70 ''Sunny'',
      mk_period ''2024-05-02T08:00:00-04:00'' True 71 ''Sunny'',
      mk_period ''2024-05-03T08:00:00-04:00'' True 72 ''Sunny'',
      mk_period ''2024-05-04T08:00:00-04:00'' True 73 ''Sunny'',
      mk_period ''2024-05-05T08:00:00-04:00'' True 74 ''Sunny'',
      mk_period ''2024-05-06T08:00:00-04:00'' True 75 ''Sunny'',
      mk_period ''2024-05-07T08:00:00-04:00'' True 76 ''Sunny'',
      mk_period ''2024-05-08T08:00:00-04:00'' True 77 ''Sunny'']"

definition cool_day :: Period where
  "cool_day = mk_period ''2024-05-01T08:00:00-04:00'' True 50 ''Rain''"

definition warm_night :: Period where
  "warm_night = mk_period ''2024-05-01T20:00:00-04:00'' False 55 ''Cloudy''"

definition overnight :: Period where
  "overnight = mk_period ''2024-05-01T02:00:00-04:00'' False 48 ''Clear''"

definition garbled :: Period where
  "garbled = mk_period ''tomorrow morning'' True 99 ''Hot''"

text \<open>
  What \<^verbatim>\<open>url.Parse\<close> returns on the URLs used below; the table is read at no other
  string.
\<close>

definition url_Parse_example :: "string \<Rightarrow> URL option" where
  "url_Parse_example =
     map_of
       [(''https://api.weather.gov/points/40.7128,-74.0060'',
           \<lparr>Scheme = ''https'', Host = ''api.weather.gov''\<rparr>),
        (''https://api.openweathermap.org/geo/1.0/zip?zip=90210,US&appid=k'',
           \<lparr>Scheme = ''https'', Host = ''api.openweathermap.org''\<rparr>),
        (''https://api.openweathermap.org/data/3.0/onecall?lat=34.090100&lon=-118.406500&exclude=minutely,hourly,alerts&units=imperial&appid=k'',
           \<lparr>Scheme = ''https'', Host = ''api.openweathermap.org''\<rparr>),
        (''https://evilopenweathermap.org/'',
           \<lparr>Scheme = ''https'', Host = ''evilopenweathermap.org''\<rparr>),
        (''http://api.weather.gov/points/40.7128,-74.0060'',
           \<lparr>Scheme = ''http'', Host = ''api.weather.gov''\<rparr>),
        (''https://example.com/'',
           \<lparr>Scheme = ''https'', Host = ''example.com''\<rparr>)]"

definition example_points :: NWSPointResponse where
  "example_points =
     \<lparr>Forecast_URL = ''https://api.weather.gov/gridpoints/OKX/33,35/forecast'',
      ForecastHourly = ''https://api.weather.gov/gridpoints/OKX/33,35/forecast/hourly'',
      ObservationStations = ''https://api.weather.gov/gridpoints/OKX/33,35/stations'',
      City = ''New York''\<rparr>"

definition example_observation :: Observation where
  "example_observation =
     \<lparr>obs_Temperature = 20, obs_WindSpeed = 10, obs_RelativeHumidity = 55.5,
      obs_HeatIndex = 0, obs_TextDescription = ''Clear''\<rparr>"

text \<open>
  A world in which every upstream call answers 200 with a well-formed body: the forecast
  call with the given periods, the combined endpoint of the primary provider with the
  given body.
\<close>

definition example_world :: "string \<Rightarrow> Period list \<Rightarrow> WeatherResponse \<Rightarrow> world" where
  "example_world tdy periods body =
     \<lparr>url_Parse = url_Parse_example,
      time_Parse = time_Parse_example,
      today = tdy,
      now = 1714564800,
      fmt_f = (\<lambda>x. if x = 34.0901 then ''34.090100''
                    else if x = - 118.4065 then ''-118.406500'' else ''0.000000''),
      fmt_4f = (\<lambda>x. if x = 40.7128 then ''40.7128''
                     else if x = - 74.0060 then ''-74.0060'' else ''0.0000''),
      fmt_text = (\<lambda>cty zipCode weather. ''Location: '' @ cty @ '' (ZIP: '' @ zipCode @ '')''),
      get_geocode = (\<lambda>u. Status 200
         (Some \<lparr>Lat = 34.0901, Lon = - 118.4065, Name = ''Beverly Hills''\<rparr>)),
      get_onecall = (\<lambda>u. Status 200 (Some body)),
      get_points = (\<lambda>u. Status 200 (Some example_points)),
      get_forecast = (\<lambda>u. Status 200 (Some periods)),
      get_stations = (\<lambda>u. Status 200 (Some [''KNYC''])),
      get_observation = (\<lambda>u. Status 200 (Some example_observation)),
      OPENAI_API_KEY = [],
      chat = (\<lambda>data. ChatChoices [])\<rparr>"

definition example_config :: "string \<Rightarrow> string list \<Rightarrow> Config" where
  "example_config key zips =
     \<lparr>APIKey = key, ZipCodes = zips, OutputFormat = FormatJSON, OutputPath = [],
      IsMetric = False, KafkaBroker = ''localhost:9092'', KafkaTopic = ''weather-data'',
      Interval = 0, Verbose = False\<rparr>"

text \<open>The JSON body \<^verbatim>\<open>{}\<close> decoded into a \<^verbatim>\<open>WeatherResponse\<close>: every field zero.\<close>

definition empty_body :: WeatherResponse where
  "empty_body =
     \<lparr>Current =
        \<lparr>Temp = Finite 0, FeelsLike = Finite 0, Humidity = 0, WindSpeed = Finite 0,
         Weather = []\<rparr>,
      Daily = []\<rparr>"

text \<open>
  A body with two days of which the second has no \<^verbatim>\<open>weather\<close> array, and one with three
  well-formed days.
\<close>

definition bare_day :: "int \<Rightarrow> DailyEntry" where
  "bare_day t = \<lparr>Dt = t, Temp_Min = 0, Temp_Max = 0, Daily_Weather = []\<rparr>"

definition full_day :: "int \<Rightarrow> float64 \<Rightarrow> float64 \<Rightarrow> string \<Rightarrow> DailyEntry" where
  "full_day t lo hi txt = \<lparr>Dt = t, Temp_Min = lo, Temp_Max = hi, Daily_Weather = [txt]\<rparr>"

definition bare_body :: WeatherResponse where
  "bare_body =
     \<lparr>Current =
        \<lparr>Temp = Finite 61, FeelsLike = Finite 60, Humidity = 40, WindSpeed = Finite 5,
         Weather = [''clear sky'']\<rparr>,
      Daily = [full_day 1714564800 50 70 ''clear sky'', bare_day 1714651200]\<rparr>"

definition full_body :: WeatherResponse where
  "full_body =
     \<lparr>Current =
        \<lparr>Temp = Finite 61, FeelsLike = Finite 60, Humidity = 40, WindSpeed = Finite 5,
         Weather = [''clear sky'']\<rparr>,
      Daily = [full_day 1714564800 50 70 ''clear sky'',
               full_day 1714651200 52 71 ''few clouds'',
               full_day 1714737600 49 66 ''light rain'']\<rparr>"

section \<open>The aggregation loop against the bucket rule\<close>

lemma dayMap_step_lookup:
  "map_of (dayMap_step parse dm p) k =
     (case parse (StartTime p) of
        None \<Rightarrow> map_of dm k
      | Some t \<Rightarrow>
          if Format_date t = k
          then Some (case map_of dm k of None \<Rightarrow> spec_seed p t | Some b \<Rightarrow> spec_widen b p)
          else map_of dm k)"
  by (auto simp: dayMap_step_def Let_def update_conv' spec_seed_def spec_widen_def
      split: option.splits)

lemma dayMap_foldl_lookup:
  "map_of (foldl (dayMap_step parse) dm periods) k =
     (case map_of dm k of
        None \<Rightarrow> spec_bucket parse (periods_on parse k periods)
      | Some b \<Rightarrow> Some (foldl spec_widen b (periods_on parse k periods)))"
proof (induction periods arbitrary: dm)
  case Nil
  then show ?case by (simp add: periods_on_def split: option.splits)
next
  case (Cons p ps)
  show ?case
    by (simp add: Cons.IH dayMap_step_lookup periods_on_def period_key_def
        split: option.splits)
qed

lemma dayMap_lookup:
  "map_of (getNWSWeather_dayMap parse periods) k = spec_bucket parse (periods_on parse k periods)"
  by (simp add: getNWSWeather_dayMap_def dayMap_foldl_lookup)

subsection \<open>Keys of the map\<close>

lemma set_date_keys:
  "set (date_keys parse periods) = {k. \<exists>p\<in>set periods. period_key parse p = Some k}"
  unfolding date_keys_def
  by (induction periods) (auto split: option.splits)

lemma dayMap_step_keys:
  "fst ` set (dayMap_step parse dm p) =
     fst ` set dm \<union> (case period_key parse p of None \<Rightarrow> {} | Some k \<Rightarrow> {k})"
  by (auto simp: dayMap_step_def Let_def dom_update period_key_def split: option.splits)

lemma dayMap_step_distinct:
  "distinct (map fst dm) \<Longrightarrow> distinct (map fst (dayMap_step parse dm p))"
  by (simp add: dayMap_step_def Let_def distinct_update split: option.splits)

lemma dayMap_foldl_keys:
  "fst ` set (foldl (dayMap_step parse) dm periods) =
     fst ` set dm \<union> {k. \<exists>p\<in>set periods. period_key parse p = Some k}"
proof (induction periods arbitrary: dm)
  case Nil
  show ?case by simp
next
  case (Cons p ps)
  show ?case
    by (auto simp: Cons.IH dayMap_step_keys split: option.splits)
qed

lemma dayMap_foldl_distinct:
  "distinct (map fst dm) \<Longrightarrow> distinct (map fst (foldl (dayMap_step parse) dm periods))"
  by (induction periods arbitrary: dm) (simp_all add: dayMap_step_distinct)

lemma dayMap_keys:
  "set (map fst (getNWSWeather_dayMap parse periods)) = set (date_keys parse periods)"
  using dayMap_foldl_keys [of parse "[]" periods]
  by (simp add: getNWSWeather_dayMap_def set_date_keys)

lemma dayMap_distinct: "distinct (map fst (getNWSWeather_dayMap parse periods))"
  by (simp add: getNWSWeather_dayMap_def dayMap_foldl_distinct)

lemma map_of_keys: "(map_of dm k \<noteq> None) = (k \<in> set (map fst dm))"
  by (simp add: map_of_eq_None_iff)

lemma dayMap_at_key:
  "k \<in> set (map fst dm) \<Longrightarrow> Some (dayMap_at dm k) = map_of dm k"
  using map_of_keys [of dm k] by (auto simp: dayMap_at_def)

subsection \<open>The final sequence\<close>

lemma length_filter_neq:
  "distinct xs \<Longrightarrow>
     length (filter (\<lambda>x. x \<noteq> a) xs) + (if a \<in> set xs then 1 else 0) = length xs"
  by (induction xs) auto

lemma daily_as_map:
  "getNWSWeather_daily tdy dm =
     map (\<lambda>day. dailyData (dayMap_at dm day)) (getNWSWeather_dates tdy dm)"
  by (simp add: getNWSWeather_daily_def getNWSWeather_dates_def dayMap_at_def
      split: option.splits)

lemma dates_today:
  "getNWSWeather_dates tdy dm =
     (if tdy \<in> set (map fst dm) then [tdy] else [])
     @ filter (\<lambda>day. day \<noteq> tdy) (sort (map fst dm))"
  using map_of_keys [of dm tdy]
  by (auto simp: getNWSWeather_dates_def getNWSWeather_days_def split: option.splits)

lemma length_dates:
  assumes "distinct (map fst dm)"
  shows "length (getNWSWeather_dates tdy dm) = length dm"
proof -
  have "distinct (sort (map fst dm))" using assms by simp
  from length_filter_neq [OF this, of tdy]
  show ?thesis by (simp add: dates_today split: if_splits)
qed

lemma set_dates: "set (getNWSWeather_dates tdy dm) = set (map fst dm)"
  by (auto simp: dates_today)

lemma distinct_dates:
  "distinct (map fst dm) \<Longrightarrow> distinct (getNWSWeather_dates tdy dm)"
  by (auto simp: dates_today)

lemma sorted_rest: "sorted (filter (\<lambda>day. day \<noteq> tdy) (sort (map fst dm)))"
  by (simp add: sorted_filter [where f = "\<lambda>x. x", simplified])

lemma rest_as_sort:
  assumes "distinct (map fst dm)"
  shows "filter (\<lambda>day. day \<noteq> tdy) (sort (map fst dm)) =
         sort (remdups (filter (\<lambda>day. day \<noteq> tdy) (map fst dm)))"
proof (rule sorted_distinct_set_unique)
  show "sorted (filter (\<lambda>day. day \<noteq> tdy) (sort (map fst dm)))" by (rule sorted_rest)
  show "distinct (filter (\<lambda>day. day \<noteq> tdy) (sort (map fst dm)))" using assms by simp
  show "set (filter (\<lambda>day. day \<noteq> tdy) (sort (map fst dm))) =
        set (sort (remdups (filter (\<lambda>day. day \<noteq> tdy) (map fst dm))))" by auto
qed simp_all

lemma sort_remdups_cong:
  "set xs = set ys \<Longrightarrow> sort (remdups xs) = sort (remdups ys)"
  by (rule sorted_distinct_set_unique) simp_all

lemma length_daily:
  "length (getNWSWeather_daily tdy (getNWSWeather_dayMap parse periods)) =
     length (remdups (date_keys parse periods))"
proof -
  let ?dm = "getNWSWeather_dayMap parse periods"
  have "length (getNWSWeather_daily tdy ?dm) = length (map fst ?dm)"
    by (simp add: daily_as_map length_dates dayMap_distinct)
  also have "\<dots> = card (set (map fst ?dm))"
    using dayMap_distinct [of parse periods] by (simp only: distinct_card)
  also have "\<dots> = length (remdups (date_keys parse periods))"
    by (simp only: dayMap_keys length_remdups_card_conv)
  finally show ?thesis .
qed

subsection \<open>Minimum below maximum\<close>

lemma spec_widen_le:
  "minTemp b \<le> maxTemp b \<Longrightarrow> minTemp (spec_widen b p) \<le> maxTemp (spec_widen b p)"
  by (simp add: spec_widen_def)

lemma foldl_spec_widen_le:
  "minTemp b \<le> maxTemp b \<Longrightarrow>
     minTemp (foldl spec_widen b ps) \<le> maxTemp (foldl spec_widen b ps)"
  by (induction ps arbitrary: b) (simp_all add: spec_widen_le)

lemma spec_bucket_le: "spec_bucket parse ps = Some b \<Longrightarrow> minTemp b \<le> maxTemp b"
  by (cases ps) (auto simp: spec_seed_def intro!: foldl_spec_widen_le)

lemma dayMap_min_le_max:
  "map_of (getNWSWeather_dayMap parse periods) k = Some b \<Longrightarrow> minTemp b \<le> maxTemp b"
  by (simp add: dayMap_lookup spec_bucket_le)

lemma daily_min_le_max:
  assumes "e \<in> set (getNWSWeather_daily tdy (getNWSWeather_dayMap parse periods))"
  shows "Temp_Min e \<le> Temp_Max e"
proof -
  let ?dm = "getNWSWeather_dayMap parse periods"
  from assms obtain k where k: "k \<in> set (getNWSWeather_dates tdy ?dm)"
    and e: "e = dailyData (dayMap_at ?dm k)"
    by (auto simp: daily_as_map)
  from k have "k \<in> set (map fst ?dm)" by (simp only: set_dates)
  then obtain b where b: "map_of ?dm k = Some b"
    using map_of_keys [of ?dm k] by auto
  then have "minTemp b \<le> maxTemp b" by (rule dayMap_min_le_max)
  with e b show ?thesis by (simp add: dailyData_def dayMap_at_def)
qed

subsection \<open>Closed form of a bucket and reordering\<close>

lemma maxTemp_foldl:
  "maxTemp (foldl spec_widen b ps) =
     fold max (map Temperature (filter IsDaytime ps)) (maxTemp b)"
  by (induction ps arbitrary: b) (auto simp: spec_widen_def max_def)

lemma minTemp_foldl:
  "minTemp (foldl spec_widen b ps) =
     fold min (map Temperature (filter (\<lambda>p. \<not> IsDaytime p) ps)) (minTemp b)"
  by (induction ps arbitrary: b) (auto simp: spec_widen_def min_def)

lemma maxTemp_closed:
  "maxTemp (foldl spec_widen b ps) =
     Max (insert (maxTemp b) (Temperature ` {p \<in> set ps. IsDaytime p}))"
  using Max.set_eq_fold [of "maxTemp b" "map Temperature (filter IsDaytime ps)"]
  by (simp add: maxTemp_foldl)

lemma minTemp_closed:
  "minTemp (foldl spec_widen b ps) =
     Min (insert (minTemp b) (Temperature ` {p \<in> set ps. \<not> IsDaytime p}))"
  using Min.set_eq_fold [of "minTemp b" "map Temperature (filter (\<lambda>p. \<not> IsDaytime p) ps)"]
  by (simp add: minTemp_foldl)

lemma find_filter: "List.find P xs = (case filter P xs of [] \<Rightarrow> None | x # _ \<Rightarrow> Some x)"
  by (induction xs) auto

lemma bucket_same_seed:
  assumes "mset xs = mset ys" and "first_on parse k xs = first_on parse k ys"
  shows "map_option temps (map_of (getNWSWeather_dayMap parse xs) k) =
         map_option temps (map_of (getNWSWeather_dayMap parse ys) k)"
proof -
  let ?P = "\<lambda>p. period_key parse p = Some k"
  have m: "mset (filter ?P xs) = mset (filter ?P ys)"
    using assms(1) by simp
  show ?thesis
  proof (cases "filter ?P xs")
    case Nil
    with m have "filter ?P ys = []" by simp
    with Nil show ?thesis by (simp add: dayMap_lookup periods_on_def)
  next
    case (Cons p rx)
    then have "first_on parse k ys = Some p"
      using assms(2) by (simp add: first_on_def find_filter)
    then obtain ry where ys: "filter ?P ys = p # ry"
      by (auto simp: first_on_def find_filter split: list.splits)
    from m Cons ys have "mset rx = mset ry" by simp
    then have "set rx = set ry" by (rule mset_eq_setD)
    then show ?thesis
      by (simp add: dayMap_lookup periods_on_def Cons ys temps_def option.map_comp o_def
          maxTemp_closed minTemp_closed)
  qed
qed

lemma keys_mset:
  assumes "mset xs = mset ys"
  shows "set (map fst (getNWSWeather_dayMap parse xs)) =
         set (map fst (getNWSWeather_dayMap parse ys))"
proof -
  from assms have "set xs = set ys" by (rule mset_eq_setD)
  then show ?thesis by (simp only: dayMap_keys set_date_keys)
qed

lemma dates_mset:
  assumes "mset xs = mset ys"
  shows "getNWSWeather_dates tdy (getNWSWeather_dayMap parse xs) =
         getNWSWeather_dates tdy (getNWSWeather_dayMap parse ys)"
proof -
  let ?kx = "map fst (getNWSWeather_dayMap parse xs)"
  let ?ky = "map fst (getNWSWeather_dayMap parse ys)"
  have s: "set ?kx = set ?ky" by (rule keys_mset [OF assms])
  have "sort ?kx = sort ?ky"
    by (rule sorted_distinct_set_unique) (simp_all add: dayMap_distinct s del: set_map)
  with s show ?thesis by (simp add: dates_today del: set_map)
qed

lemma entry_temps_dailyData: "entry_temps (dailyData b) = temps b"
  by (simp add: entry_temps_def temps_def dailyData_def)

lemma daily_same_seed:
  assumes "mset xs = mset ys" and "\<forall>k. first_on parse k xs = first_on parse k ys"
  shows "map entry_temps (getNWSWeather_daily tdy (getNWSWeather_dayMap parse xs)) =
         map entry_temps (getNWSWeather_daily tdy (getNWSWeather_dayMap parse ys))"
proof -
  let ?dx = "getNWSWeather_dayMap parse xs" and ?dy = "getNWSWeather_dayMap parse ys"
  have "temps (dayMap_at ?dx k) = temps (dayMap_at ?dy k)"
    if "k \<in> set (getNWSWeather_dates tdy ?dx)" for k
  proof -
    from that have kx: "k \<in> set (map fst ?dx)" by (simp only: set_dates)
    then have ky: "k \<in> set (map fst ?dy)" using keys_mset [OF assms(1), of parse] by simp
    from bucket_same_seed [OF assms(1), of parse k] assms(2)
    have "map_option temps (map_of ?dx k) = map_option temps (map_of ?dy k)" by simp
    then have "map_option temps (Some (dayMap_at ?dx k)) =
               map_option temps (Some (dayMap_at ?dy k))"
      by (simp only: dayMap_at_key [OF kx] dayMap_at_key [OF ky])
    then show ?thesis by simp
  qed
  then show ?thesis
    by (simp add: daily_as_map dates_mset [OF assms(1), of tdy parse]
        entry_temps_dailyData o_def)
qed

subsection \<open>Periods whose timestamp does not parse\<close>

lemma dayMap_step_unparsable: "parse (StartTime p) = None \<Longrightarrow> dayMap_step parse dm p = dm"
  by (simp add: dayMap_step_def)

lemma dayMap_foldl_filter:
  "foldl (dayMap_step parse) dm (filter (parseable parse) periods) =
     foldl (dayMap_step parse) dm periods"
  by (induction periods arbitrary: dm) (auto simp: dayMap_step_unparsable parseable_def)

lemma dayMap_filter:
  "getNWSWeather_dayMap parse (filter (parseable parse) periods) =
     getNWSWeather_dayMap parse periods"
  by (simp add: getNWSWeather_dayMap_def dayMap_foldl_filter)

lemma convert_filter:
  "getNWSWeather_convert parse tdy obs (filter (parseable parse) periods) =
     getNWSWeather_convert parse tdy obs periods"
  by (simp add: getNWSWeather_convert_def dayMap_filter)

lemma fetch_map_response:
  "fetch ep (map_response f r) = map_sum id f (fetch ep r)"
  by (cases r) (auto simp: fetch_def split: option.splits)

lemma getNWSWeather_filter:
  "getNWSWeather
     (w\<lparr>get_forecast :=
          \<lambda>u. map_response (filter (parseable (time_Parse w))) (get_forecast w u)\<rparr>)
     la lo = getNWSWeather w la lo"
  by (simp add: getNWSWeather_def pointsURL_def fetch_map_response convert_filter
      split: option.splits sum.splits list.splits)

lemma dayMap_drop_one:
  assumes "parse (StartTime p) = None"
  shows "getNWSWeather_dayMap parse (xs @ p # ys) = getNWSWeather_dayMap parse (xs @ ys)"
  using assms by (simp add: getNWSWeather_dayMap_def dayMap_step_unparsable)

subsection \<open>Evaluation on the concrete inputs\<close>

lemmas run_defs =
  getNWSWeather_dayMap_def dayMap_step_def Let_def getNWSWeather_daily_def
  getNWSWeather_dates_def getNWSWeather_days_def dayMap_at_def dailyData_def
  mk_period_def time_Parse_example_def temps_def entry_temps_def

lemma example_day1:
  "map_of (getNWSWeather_dayMap time_Parse_example example_periods) ''2024-05-01'' =
     Some \<lparr>date = \<lparr>Format_date = ''2024-05-01'', Unix = 1714564800\<rparr>,
           minTemp = 55, maxTemp = 70, description = ''Sunny''\<rparr>"
  by (simp add: run_defs example_periods_def)

lemma example_day2:
  "map_of (getNWSWeather_dayMap time_Parse_example example_periods) ''2024-05-02'' =
     Some \<lparr>date = \<lparr>Format_date = ''2024-05-02'', Unix = 1714651200\<rparr>,
           minTemp = 72, maxTemp = 72, description = ''Cloudy''\<rparr>"
  by (simp add: run_defs example_periods_def)

lemma example_daily:
  "getNWSWeather_daily ''2024-05-01''
     (getNWSWeather_dayMap time_Parse_example example_periods) =
     [\<lparr>Dt = 1714564800, Temp_Min = 55, Temp_Max = 70, Daily_Weather = [''Sunny'']\<rparr>,
      \<lparr>Dt = 1714651200, Temp_Min = 72, Temp_Max = 72, Daily_Weather = [''Cloudy'']\<rparr>]"
  by (simp add: run_defs example_periods_def)

lemma example_keys:
  "date_keys time_Parse_example example_periods =
     [''2024-05-01'', ''2024-05-01'', ''2024-05-02'']"
  by (simp add: date_keys_def period_key_def example_periods_def mk_period_def
      time_Parse_example_def)

lemma eight_days_keys:
  "date_keys time_Parse_example eight_days =
     [''2024-05-01'', ''2024-05-02'', ''2024-05-03'', ''2024-05-04'',
      ''2024-05-05'', ''2024-05-06'', ''2024-05-07'', ''2024-05-08'']"
  by (simp add: date_keys_def period_key_def eight_days_def mk_period_def
      time_Parse_example_def)

lemma eight_days_daily:
  "map entry_temps (getNWSWeather_daily ''2024-05-01''
     (getNWSWeather_dayMap time_Parse_example eight_days)) =
     [(70, 70), (71, 71), (72, 72), (73, 73), (74, 74), (75, 75), (76, 76), (77, 77)]"
  by (simp add: run_defs eight_days_def)

section \<open>Rounding to binary64\<close>

lemma ilog2_lower:
  assumes "0 < a"
  shows "2 powi ilog2 a \<le> a"
proof (cases "1 \<le> a")
  case True
  then have n: "0 < \<lfloor>a\<rfloor>" by linarith
  from bitlen_bounds [OF n] have b: "(2::int) ^ nat (bitlen \<lfloor>a\<rfloor> - 1) \<le> \<lfloor>a\<rfloor>" by simp
  from n have "1 \<le> bitlen \<lfloor>a\<rfloor>" by (auto simp: bitlen_alt_def)
  then have "(2::real) powi ilog2 a = 2 ^ nat (bitlen \<lfloor>a\<rfloor> - 1)"
    using True by (simp add: ilog2_def power_int_nonneg_exp)
  also have "\<dots> = of_int (2 ^ nat (bitlen \<lfloor>a\<rfloor> - 1))" by simp
  also have "\<dots> \<le> of_int \<lfloor>a\<rfloor>" using b by (simp only: of_int_le_iff)
  also have "\<dots> \<le> a" by simp
  finally show ?thesis .
next
  case False
  let ?n = "\<lceil>1 / a\<rceil> - 1"
  let ?k = "nat (bitlen ?n)"
  from False assms have "1 < 1 / a" by simp
  then have n: "0 < ?n" by linarith
  from bitlen_bounds [OF n] have "?n < 2 ^ ?k" by simp
  then have "\<lceil>1 / a\<rceil> \<le> 2 ^ ?k" by simp
  then have "real_of_int \<lceil>1 / a\<rceil> \<le> of_int (2 ^ ?k)" by (simp only: of_int_le_iff)
  then have "1 / a \<le> 2 ^ ?k" by (simp add: ceiling_le_iff)
  then have le: "1 / 2 ^ ?k \<le> a"
    using assms by (simp add: field_simps)
  have "ilog2 a = - int ?k"
    using False bitlen_nonneg [of ?n] by (simp add: ilog2_def)
  then have "(2::real) powi ilog2 a = 2 powi (- int ?k)" by (simp only:)
  also have "\<dots> = 1 / 2 ^ ?k" by (simp only: power_int_minus_divide power_int_of_nat)
  finally show ?thesis using le by simp
qed

lemma round_half_even_of_int: "round_half_even (of_int n) = n"
  by (simp add: round_half_even_def)

lemma round_f64_exact:
  assumes "is_f64 x"
  shows "round_f64 x = Finite x"
proof (cases "x = 0")
  case True
  then show ?thesis by (simp add: round_f64_def)
next
  case False
  from assms obtain m e where x: "x = of_int m * 2 powi e"
    and m: "\<bar>m\<bar> < 2 ^ 53" and e: "- 1074 \<le> e" "e \<le> 971"
    by (auto simp: is_f64_def)
  define E where "E = ilog2 \<bar>x\<bar>"
  define k where "k = max (E - 52) (- 1074)"
  have ax: "\<bar>x\<bar> = of_int \<bar>m\<bar> * 2 powi e"
    by (simp add: x abs_mult)
  from m have "real_of_int \<bar>m\<bar> < of_int (2 ^ 53)" by (simp only: of_int_less_iff)
  then have mr: "real_of_int \<bar>m\<bar> < 2 powi 53" by simp
  have "2 powi E \<le> \<bar>x\<bar>" unfolding E_def using False by (intro ilog2_lower) simp
  also have "\<bar>x\<bar> < 2 powi 53 * 2 powi e"
    unfolding ax using mr by (intro mult_strict_right_mono) simp_all
  also have "\<dots> = 2 powi (53 + e)" by (simp add: power_int_add)
  finally have lt: "(2::real) powi E < 2 powi (53 + e)" .
  have "E < 53 + e"
  proof (rule ccontr)
    assume "\<not> E < 53 + e"
    then have "53 + e \<le> E" by simp
    then have "(2::real) powi (53 + e) \<le> 2 powi E" by (intro power_int_increasing) simp_all
    with lt show False by simp
  qed
  with e have d: "0 \<le> e - k" by (simp add: k_def)
  have "(2::real) powi (e - k + k) = 2 powi (e - k) * 2 powi k"
    by (rule power_int_add) simp
  then have "(2::real) powi e = 2 powi (e - k) * 2 powi k"
    by (simp only: diff_add_cancel)
  also have "(2::real) powi (e - k) = 2 ^ nat (e - k)"
    using d by (rule power_int_nonneg_exp)
  finally have pe: "(2::real) powi e = 2 ^ nat (e - k) * 2 powi k" .
  have "x = of_int m * (2 ^ nat (e - k) * 2 powi k)" by (simp only: x pe)
  then have xk: "x = of_int (m * 2 ^ nat (e - k)) * 2 powi k" by simp
  have "x / 2 powi k = of_int (m * 2 ^ nat (e - k)) * 2 powi k / 2 powi k"
    using xk by simp
  then have q: "x / 2 powi k = of_int (m * 2 ^ nat (e - k))" by simp
  have "real_of_int (round_half_even (x / 2 powi k)) * 2 powi k =
        of_int (m * 2 ^ nat (e - k)) * 2 powi k"
    by (simp only: q round_half_even_of_int)
  also have "\<dots> = x" by (rule xk [symmetric])
  finally have y: "real_of_int (round_half_even (x / 2 powi k)) * 2 powi k = x" .
  have pe971: "2 powi e \<le> (2::real) powi 971"
    using e by (intro power_int_increasing) simp_all
  have "\<bar>x\<bar> < 2 powi 53 * 2 powi 971"
    unfolding ax by (rule mult_less_le_imp_less [OF mr pe971]) simp_all
  also have "\<dots> = 2 ^ 1024" by simp
  finally have b: "\<not> 2 ^ 1024 \<le> \<bar>x\<bar>" by simp
  have "round_f64 x =
         (if 2 ^ 1024 \<le> \<bar>real_of_int (round_half_even (x / 2 powi k)) * 2 powi k\<bar>
          then (if 0 < x then PosInf else NegInf)
          else Finite (of_int (round_half_even (x / 2 powi k)) * 2 powi k))"
    using False by (simp only: round_f64_def Let_def k_def E_def if_False)
  also have "\<dots> = Finite x" using b by (simp only: y if_False)
  finally show ?thesis .
qed

lemma is_f64_of_int: "\<bar>n\<bar> < 2 ^ 53 \<Longrightarrow> is_f64 (of_int n)"
  unfolding is_f64_def by (rule exI [of _ n], rule exI [of _ 0]) simp

lemma ilog2_upper:
  assumes "0 < a"
  shows "a < 2 powi (ilog2 a + 1)"
proof (cases "1 \<le> a")
  case True
  then have n: "0 < \<lfloor>a\<rfloor>" by linarith
  from bitlen_bounds [OF n] have "\<lfloor>a\<rfloor> < 2 ^ nat (bitlen \<lfloor>a\<rfloor>)" by simp
  then have "\<lfloor>a\<rfloor> + 1 \<le> 2 ^ nat (bitlen \<lfloor>a\<rfloor>)" by simp
  then have "real_of_int (\<lfloor>a\<rfloor> + 1) \<le> of_int (2 ^ nat (bitlen \<lfloor>a\<rfloor>))"
    by (simp only: of_int_le_iff)
  then have b: "real_of_int \<lfloor>a\<rfloor> + 1 \<le> 2 ^ nat (bitlen \<lfloor>a\<rfloor>)" by simp
  have "a < real_of_int \<lfloor>a\<rfloor> + 1" by linarith
  also note b
  also have "(2::real) ^ nat (bitlen \<lfloor>a\<rfloor>) = 2 powi (ilog2 a + 1)"
    using True bitlen_nonneg [of "\<lfloor>a\<rfloor>"] by (simp add: ilog2_def power_int_nonneg_exp)
  finally show ?thesis .
next
  case False
  let ?n = "\<lceil>1 / a\<rceil> - 1"
  let ?j = "nat (bitlen ?n - 1)"
  from False assms have "1 < 1 / a" by simp
  then have n: "0 < ?n" by linarith
  then have b1: "1 \<le> bitlen ?n" by (auto simp: bitlen_alt_def)
  from bitlen_bounds [OF n] have "(2::int) ^ ?j \<le> ?n" by simp
  then have "real_of_int (2 ^ ?j) \<le> of_int ?n" by (simp only: of_int_le_iff)
  then have "(2::real) ^ ?j \<le> of_int ?n" by simp
  also have "real_of_int ?n < 1 / a" by linarith
  finally have "(2::real) ^ ?j < 1 / a" .
  then have lt: "a < 1 / 2 ^ ?j" using assms by (simp add: field_simps)
  have "ilog2 a + 1 = - int ?j"
    using False b1 by (simp add: ilog2_def)
  then have "(2::real) powi (ilog2 a + 1) = 2 powi (- int ?j)" by (simp only:)
  also have "\<dots> = 1 / 2 ^ ?j" by (simp only: power_int_minus_divide power_int_of_nat)
  finally show ?thesis using lt by simp
qed

lemma round_half_even_ge_floor: "\<lfloor>y\<rfloor> \<le> round_half_even y"
  by (simp add: round_half_even_def Let_def)

lemma round_f64_overflow:
  assumes "2 ^ 1024 \<le> x"
  shows "round_f64 x = PosInf"
proof -
  define E where "E = ilog2 \<bar>x\<bar>"
  define k where "k = max (E - 52) (- 1074)"
  have p: "(0::real) < 2 ^ 1024" by simp
  from p assms have x0: "0 < x" by (rule less_le_trans)
  then have ax: "\<bar>x\<bar> = x" by simp
  have "(2::real) powi 1024 = 2 ^ 1024" by simp
  also note assms
  also have "x < 2 powi (E + 1)" unfolding E_def ax using x0 by (rule ilog2_upper)
  finally have lt: "(2::real) powi 1024 < 2 powi (E + 1)" .
  have E: "1024 \<le> E"
  proof (rule ccontr)
    assume "\<not> 1024 \<le> E"
    then have "E + 1 \<le> 1024" by simp
    then have "(2::real) powi (E + 1) \<le> 2 powi 1024" by (intro power_int_increasing) simp_all
    with lt show False by simp
  qed
  then have k: "k = E - 52" by (simp add: k_def)
  have qpos: "(0::real) < 2 powi k" by simp
  have "(2::real) powi (52 + k) = 2 powi 52 * 2 powi k" by (rule power_int_add) simp
  then have split: "(2::real) powi E = 2 powi 52 * 2 powi k" by (simp add: k)
  have "2 powi E \<le> x" using ilog2_lower [of "\<bar>x\<bar>"] x0 by (simp add: E_def)
  then have "2 powi 52 * 2 powi k \<le> x" by (simp only: split)
  then have "(2::real) powi 52 \<le> x / 2 powi k" using qpos by (simp add: field_simps)
  then have "real_of_int (2 ^ 52) \<le> x / 2 powi k" by simp
  then have "2 ^ 52 \<le> \<lfloor>x / 2 powi k\<rfloor>" by (simp only: le_floor_iff)
  also have "\<dots> \<le> round_half_even (x / 2 powi k)" by (rule round_half_even_ge_floor)
  finally have "real_of_int (2 ^ 52) \<le> of_int (round_half_even (x / 2 powi k))"
    by (simp only: of_int_le_iff)
  then have r: "(2::real) powi 52 \<le> of_int (round_half_even (x / 2 powi k))" by simp
  have "(2::real) powi 1024 \<le> 2 powi E" using E by (intro power_int_increasing) simp_all
  also have "\<dots> = 2 powi 52 * 2 powi k" by (rule split)
  also have "\<dots> \<le> of_int (round_half_even (x / 2 powi k)) * 2 powi k"
    using r qpos by (intro mult_right_mono) simp_all
  finally have big: "2 powi 1024 \<le> real_of_int (round_half_even (x / 2 powi k)) * 2 powi k" .
  from big have nn: "0 \<le> real_of_int (round_half_even (x / 2 powi k)) * 2 powi k"
    by (rule order_trans [rotated]) simp
  have c: "2 ^ 1024 \<le> \<bar>real_of_int (round_half_even (x / 2 powi k)) * 2 powi k\<bar>"
    using big nn by (simp only: abs_of_nonneg) simp
  have "round_f64 x =
         (if 2 ^ 1024 \<le> \<bar>real_of_int (round_half_even (x / 2 powi k)) * 2 powi k\<bar>
          then (if 0 < x then PosInf else NegInf)
          else Finite (of_int (round_half_even (x / 2 powi k)) * 2 powi k))"
    using x0 by (simp only: round_f64_def Let_def k_def E_def ax) simp
  also have "\<dots> = PosInf" using c x0 by (simp only: if_True)
  finally show ?thesis .
qed

lemma celsiusToFahrenheit_exact:
  assumes "is_f64 (c * 9)" and "is_f64 (c * 9 / 5)" and "is_f64 (c * 9 / 5 + 32)"
  shows "celsiusToFahrenheit (Finite c) = Finite (c * 9 / 5 + 32)"
  by (simp add: celsiusToFahrenheit_def round_f64_exact [OF assms(1)]
      round_f64_exact [OF assms(2)] round_f64_exact [OF assms(3)])

lemma celsiusToFahrenheit_overflow:
  assumes "2 ^ 1024 \<le> c * 9"
  shows "celsiusToFahrenheit (Finite c) = PosInf"
  by (simp add: celsiusToFahrenheit_def round_f64_overflow [OF assms])

lemmas round_defs = round_f64_def ilog2_def round_half_even_def Let_def compute_bitlen

lemma celsiusToFahrenheit_37:
  "celsiusToFahrenheit (Finite 37) = Finite (3469179087958835 / 35184372088832)"
proof -
  have 1: "round_f64 333 = Finite 333" by (simp add: round_defs)
  have 2: "round_f64 (333 / 5) = Finite (2343279181116211 / 35184372088832)"
    by (simp add: round_defs)
  have 3: "round_f64 (3469179087958835 / 35184372088832) =
           Finite (3469179087958835 / 35184372088832)"
    by (simp add: round_defs)
  show ?thesis by (simp add: celsiusToFahrenheit_def 1 2 3)
qed

section \<open>URL validation\<close>

lemma validateURL_accepts_domain_hosts:
  "parse rawURL = Some u \<Longrightarrow> Scheme u = ''https'' \<Longrightarrow> spec_host_allowed (Host u) \<Longrightarrow>
     validateURL parse rawURL = None"
  by (auto simp: validateURL_def allowedHosts_def spec_host_allowed_def in_domain_def
      HasSuffix_def suffix_def)

lemma validateURL_rejects_other_scheme:
  "parse rawURL = Some u \<Longrightarrow> Scheme u \<noteq> ''https'' \<Longrightarrow>
     validateURL parse rawURL = Some MustUseHTTPS"
  by (simp add: validateURL_def)

lemma validateURL_rejects_unrelated_host:
  "validateURL url_Parse_example ''https://example.com/'' =
     Some (HostNotAllowed ''example.com'')"
  by (simp add: validateURL_def url_Parse_example_def allowedHosts_def HasSuffix_def
      suffix_Cons)

section \<open>Per-location processing\<close>

lemma forecast_loop_Ok:
  "\<forall>day\<in>set ds. Daily_Weather day \<noteq> [] \<Longrightarrow> forecast_loop ds = Ok (map spec_forecast_entry ds)"
  by (induction ds) (auto simp: spec_forecast_entry_def split: list.splits)

lemma forecast_loop_cases:
  "forecast_loop ds =
     (if list_ex (\<lambda>day. Daily_Weather day = []) ds then Panic IndexOutOfRange
      else Ok (map spec_forecast_entry ds))"
  by (induction ds) (auto simp: spec_forecast_entry_def split: list.splits)

lemma forecast_range_eq:
  "forecast_range weather =
     take (min (length (Daily weather)) 7 - 1) (drop 1 (Daily weather))"
proof -
  have "nat (forecastDays_of weather - 1) = min (length (Daily weather)) 7 - 1"
    unfolding forecastDays_of_def min_def by (simp; arith)
  then show ?thesis by (simp add: forecast_range_def)
qed

lemma forecastDays_of_min: "forecastDays_of weather = int (min (length (Daily weather)) 7)"
  by (simp add: forecastDays_of_def min_def)

lemma convert_daily_weather:
  "\<forall>e\<in>set (Daily (getNWSWeather_convert parse tdy obs periods)). length (Daily_Weather e) = 1"
  by (auto simp: getNWSWeather_convert_def daily_as_map dailyData_def)

lemma ProcessLocations_loop_skips:
  "GetLocationWeather w zipCode config = Failure err \<Longrightarrow>
     ProcessLocations_loop w config (zipCode # zips) acc logged =
     ProcessLocations_loop w config zips acc (logged @ [(zipCode, err)])"
  by simp

lemma ProcessLocations_loop_collects:
  "GetLocationWeather w zipCode config = Ok wd \<Longrightarrow>
     ProcessLocations_loop w config (zipCode # zips) acc logged =
     ProcessLocations_loop w config zips (acc @ [wd]) logged"
  by simp

lemma ProcessLocations_loop_crashes:
  "GetLocationWeather w zipCode config = Panic p \<Longrightarrow>
     ProcessLocations_loop w config (zipCode # zips) acc logged = Panic p"
  by simp

lemma ProcessLocations_loop_no_panic:
  "\<forall>zipCode\<in>set zips. \<forall>p. GetLocationWeather w zipCode config \<noteq> Panic p \<Longrightarrow>
     ProcessLocations_loop w config zips acc logged =
       Ok (acc @ collected w config zips, logged @ skipped w config zips)"
proof (induction zips arbitrary: acc logged)
  case Nil
  show ?case by (simp add: collected_def skipped_def)
next
  case (Cons z zs)
  then have ih: "\<And>acc logged. ProcessLocations_loop w config zs acc logged =
       Ok (acc @ collected w config zs, logged @ skipped w config zs)"
    by simp
  from Cons.prems have np: "\<And>p. GetLocationWeather w z config \<noteq> Panic p" by simp
  show ?case
  proof (cases "GetLocationWeather w z config")
    case (Panic p)
    with np [of p] show ?thesis by simp
  next
    case (Failure err)
    then show ?thesis by (simp add: ih collected_def skipped_def)
  next
    case (Ok wd)
    then show ?thesis by (simp add: ih collected_def skipped_def)
  qed
qed

lemmas world_defs =
  example_world_def example_config_def url_Parse_example_def validateURL_def
  allowedHosts_def HasSuffix_def suffix_def fetch_def geoEndpoint_def weatherEndpoint_def
  nwsPointsEndpoint_def pointsURL_def observationURL_def example_points_def
  FormatJSON_def FormatCSV_def FormatText_def FormatKafka_def

lemma example_primary_weather:
  "getCoordinates (example_world tdy periods body) ''90210'' ''k'' =
     Inr (34.0901, - 118.4065, ''Beverly Hills'')
   \<and> getWeather (example_world tdy periods body) 34.0901 (- 118.4065) ''k'' = Inr body"
  by (simp add: getCoordinates_def getWeather_def world_defs)

lemma example_fallback_weather:
  "getCoordinates (example_world tdy periods body) ''99999'' [] =
     Inr (40.7128, - 74.0060, ''New York'')
   \<and> getWeather (example_world tdy periods body) 40.7128 (- 74.0060) [] =
     Inr (getNWSWeather_convert time_Parse_example tdy example_observation periods)"
  by (simp add: getCoordinates_def getNWSCoordinates_def zipCoords_def getWeather_def
      getNWSWeather_def world_defs)

lemma GetLocationWeather_text:
  assumes "getCoordinates w zipCode (APIKey config) = Inr (la, lo, cty)"
    and "getWeather w la lo (APIKey config) = Inr weather"
    and "forecast_loop (forecast_range weather) = Ok fc"
    and "\<not> forecastDays_of weather - 1 < 0"
    and "OutputFormat config = FormatText"
    and "buildForecastText w cty zipCode weather = Ok txt"
    and "summarizeForecast w txt = Ok s"
  shows "\<exists>wd. GetLocationWeather w zipCode config = Ok wd
       \<and> Forecast wd = fc
       \<and> ForecastDays wd = forecastDays_of weather - 1"
  using assms(4)
  apply (simp add: GetLocationWeather_def Let_def assms(1) assms(2) assms(3))
  apply (simp add: assms(5))
  apply (simp add: assms(6))
  apply (simp add: assms(7))
  done

lemma GetLocationWeather_other:
  assumes "getCoordinates w zipCode (APIKey config) = Inr (la, lo, cty)"
    and "getWeather w la lo (APIKey config) = Inr weather"
    and "forecast_loop (forecast_range weather) = Ok fc"
    and "\<not> forecastDays_of weather - 1 < 0"
    and "OutputFormat config \<noteq> FormatText"
  shows "\<exists>wd. GetLocationWeather w zipCode config = Ok wd
       \<and> Forecast wd = fc
       \<and> ForecastDays wd = forecastDays_of weather - 1"
  using assms(4)
  apply (simp add: GetLocationWeather_def Let_def assms(1) assms(2) assms(3))
  apply (simp add: assms(5))
  done

section \<open>Claims about the daily aggregator\<close>

text \<open>
  Claim C1. For every sequence of periods and every date, the bucket the aggregation loop
  leaves in the map is the one the bucket rule describes: no bucket when no parseable
  period falls on the date; otherwise the first such period seeds minimum, maximum and
  condition, and each later one raises the maximum and replaces the condition only when
  it is a daytime period strictly above the running maximum, and lowers the minimum only
  when it is a nighttime period strictly below the running minimum. On the periods
  (day 1, 08:00, day, 70), (day 1, 20:00, night, 55), (day 2, 08:00, day, 72) the result
  is minimum 55 and maximum 70 for day 1, and 72 and 72 for day 2.
\<close>

theorem dayMap_bucket_rule:
  "map_of (getNWSWeather_dayMap parse periods) k =
     spec_bucket parse (periods_on parse k periods)
   \<and> map_option temps
       (map_of (getNWSWeather_dayMap time_Parse_example example_periods) ''2024-05-01'') =
     Some (55, 70)
   \<and> map_option temps
       (map_of (getNWSWeather_dayMap time_Parse_example example_periods) ''2024-05-02'') =
     Some (72, 72)
   \<and> map entry_temps
       (getNWSWeather_daily ''2024-05-01''
          (getNWSWeather_dayMap time_Parse_example example_periods)) =
     [(55, 70), (72, 72)]"
proof -
  have "map_of (getNWSWeather_dayMap parse periods) k =
        spec_bucket parse (periods_on parse k periods)"
    by (rule dayMap_lookup)
  then show ?thesis
    by (simp add: example_day1 example_day2 example_daily temps_def entry_temps_def)
qed

theorem dayMap_bucket_rule_witness:
  "map_of (getNWSWeather_dayMap time_Parse_example (overnight # example_periods))
     ''2024-05-01'' =
     Some \<lparr>date = \<lparr>Format_date = ''2024-05-01'', Unix = 1714543200\<rparr>,
           minTemp = 48, maxTemp = 70, description = ''Sunny''\<rparr>"
proof -
  have "map_of (getNWSWeather_dayMap time_Parse_example (overnight # example_periods))
          ''2024-05-01'' =
        spec_bucket time_Parse_example
          (periods_on time_Parse_example ''2024-05-01'' (overnight # example_periods))"
    using dayMap_bucket_rule [of time_Parse_example "overnight # example_periods"
        "''2024-05-01''"]
    by (rule conjunct1)
  also have "\<dots> =
     Some \<lparr>date = \<lparr>Format_date = ''2024-05-01'', Unix = 1714543200\<rparr>,
           minTemp = 48, maxTemp = 70, description = ''Sunny''\<rparr>"
    by (simp add: periods_on_def period_key_def overnight_def example_periods_def
        mk_period_def time_Parse_example_def spec_seed_def spec_widen_def)
  finally show ?thesis .
qed

text \<open>
  Claim C2, as the code has it. The aggregation has no cap: the daily sequence has exactly
  one entry for each distinct calendar date among the periods whose start timestamp
  parses, so eight dates give eight entries. The cap of 7 is applied afterwards by the
  consumer of the sequence, whose day count is the length capped at 7.
\<close>

theorem daily_length_is_date_count:
  "length (getNWSWeather_daily tdy (getNWSWeather_dayMap parse periods)) =
     length (remdups (date_keys parse periods))
   \<and> length (Daily (getNWSWeather_convert parse tdy obs periods)) =
     card {k. \<exists>p\<in>set periods. period_key parse p = Some k}
   \<and> forecastDays_of (getNWSWeather_convert parse tdy obs periods) =
     min (int (length (remdups (date_keys parse periods)))) 7"
proof -
  have "length (remdups (date_keys parse periods)) =
        card {k. \<exists>p\<in>set periods. period_key parse p = Some k}"
    by (simp only: length_remdups_card_conv set_date_keys)
  then show ?thesis
    by (simp add: length_daily getNWSWeather_convert_def forecastDays_of_def)
qed

theorem daily_length_is_date_count_witness:
  "length (getNWSWeather_daily ''2024-05-02''
     (getNWSWeather_dayMap time_Parse_example (garbled # example_periods))) = 2"
proof -
  have "date_keys time_Parse_example (garbled # example_periods) =
        [''2024-05-01'', ''2024-05-01'', ''2024-05-02'']"
    by (simp add: date_keys_def period_key_def example_periods_def garbled_def mk_period_def
        time_Parse_example_def)
  then show ?thesis
    using daily_length_is_date_count [of "''2024-05-02''" time_Parse_example
        "garbled # example_periods" example_observation]
    by simp
qed

theorem daily_exceeds_seven:
  "\<not> length (getNWSWeather_daily ''2024-05-01''
        (getNWSWeather_dayMap time_Parse_example eight_days)) \<le> 7
   \<and> length (remdups (date_keys time_Parse_example eight_days)) = 8"
proof -
  have "length (map entry_temps (getNWSWeather_daily ''2024-05-01''
          (getNWSWeather_dayMap time_Parse_example eight_days))) = 8"
    by (simp only: eight_days_daily) simp
  then show ?thesis by (simp add: eight_days_keys)
qed

text \<open>
  Claim C3, as the code has it. Reordering the periods leaves every date's minimum and
  maximum unchanged provided each date keeps the same first period, the one that seeds
  its bucket. Without that proviso the claim fails: a daytime period at 50 followed by a
  nighttime period at 55 on the same date gives minimum and maximum 50, and in the other
  order 55.
\<close>

theorem daily_temps_same_seed:
  assumes "mset xs = mset ys"
    and "\<forall>k. first_on parse k xs = first_on parse k ys"
  shows "(\<forall>k. map_option temps (map_of (getNWSWeather_dayMap parse xs) k) =
              map_option temps (map_of (getNWSWeather_dayMap parse ys) k))
       \<and> map entry_temps (getNWSWeather_daily tdy (getNWSWeather_dayMap parse xs)) =
         map entry_temps (getNWSWeather_daily tdy (getNWSWeather_dayMap parse ys))"
  using assms bucket_same_seed [OF assms(1), of parse] daily_same_seed [OF assms, of tdy]
  by simp

theorem daily_temps_same_seed_witness:
  "mset [overnight, cool_day, warm_night] = mset [overnight, warm_night, cool_day]
   \<and> (\<forall>k. first_on time_Parse_example k [overnight, cool_day, warm_night] =
           first_on time_Parse_example k [overnight, warm_night, cool_day])
   \<and> map entry_temps (getNWSWeather_daily ''2024-05-01''
        (getNWSWeather_dayMap time_Parse_example [overnight, cool_day, warm_night])) =
     map entry_temps (getNWSWeather_daily ''2024-05-01''
        (getNWSWeather_dayMap time_Parse_example [overnight, warm_night, cool_day]))
   \<and> map entry_temps (getNWSWeather_daily ''2024-05-01''
        (getNWSWeather_dayMap time_Parse_example [overnight, cool_day, warm_night])) =
     [(48, 50)]"
proof -
  have m: "mset [overnight, cool_day, warm_night] = mset [overnight, warm_night, cool_day]"
    by simp
  have f: "\<forall>k. first_on time_Parse_example k [overnight, cool_day, warm_night] =
               first_on time_Parse_example k [overnight, warm_night, cool_day]"
    by (simp add: first_on_def period_key_def overnight_def cool_day_def warm_night_def
        mk_period_def time_Parse_example_def)
  have v: "map entry_temps (getNWSWeather_daily ''2024-05-01''
        (getNWSWeather_dayMap time_Parse_example [overnight, cool_day, warm_night])) =
     [(48, 50)]"
    by (simp add: run_defs overnight_def cool_day_def warm_night_def)
  from daily_temps_same_seed [OF m f, of "''2024-05-01''"] m f v show ?thesis
    by simp
qed

theorem reordering_changes_temps:
  "mset [cool_day, warm_night] = mset [warm_night, cool_day]
   \<and> map entry_temps (getNWSWeather_daily ''2024-05-01''
        (getNWSWeather_dayMap time_Parse_example [cool_day, warm_night])) = [(50, 50)]
   \<and> map entry_temps (getNWSWeather_daily ''2024-05-01''
        (getNWSWeather_dayMap time_Parse_example [warm_night, cool_day])) = [(55, 55)]"
  by (simp add: run_defs cool_day_def warm_night_def)

text \<open>
  Claim C4. The daily sequence is the map read at a list of dates that has no date twice,
  that consists of today (when the periods have it) followed by all other dates of the
  periods in strictly ascending order, and no entry of the sequence has its minimum above
  its maximum.
\<close>

theorem daily_sequence_invariant:
  "getNWSWeather_daily tdy (getNWSWeather_dayMap parse periods) =
     map (\<lambda>day. dailyData (dayMap_at (getNWSWeather_dayMap parse periods) day))
       (getNWSWeather_dates tdy (getNWSWeather_dayMap parse periods))
   \<and> distinct (getNWSWeather_dates tdy (getNWSWeather_dayMap parse periods))
   \<and> getNWSWeather_dates tdy (getNWSWeather_dayMap parse periods) =
       (if tdy \<in> set (date_keys parse periods) then [tdy] else [])
       @ sort (remdups (filter (\<lambda>day. day \<noteq> tdy) (date_keys parse periods)))
   \<and> sorted_wrt (<) (sort (remdups (filter (\<lambda>day. day \<noteq> tdy) (date_keys parse periods))))
   \<and> (\<forall>e\<in>set (getNWSWeather_daily tdy (getNWSWeather_dayMap parse periods)).
         Temp_Min e \<le> Temp_Max e)"
proof -
  let ?dm = "getNWSWeather_dayMap parse periods"
  have d: "distinct (map fst ?dm)" by (rule dayMap_distinct)
  have k: "set (map fst ?dm) = set (date_keys parse periods)" by (rule dayMap_keys)
  have "set (filter (\<lambda>day. day \<noteq> tdy) (map fst ?dm)) =
        set (filter (\<lambda>day. day \<noteq> tdy) (date_keys parse periods))"
    using k by (simp del: set_map)
  then have "sort (remdups (filter (\<lambda>day. day \<noteq> tdy) (map fst ?dm))) =
             sort (remdups (filter (\<lambda>day. day \<noteq> tdy) (date_keys parse periods)))"
    by (rule sort_remdups_cong)
  then have dates: "getNWSWeather_dates tdy ?dm =
       (if tdy \<in> set (date_keys parse periods) then [tdy] else [])
       @ sort (remdups (filter (\<lambda>day. day \<noteq> tdy) (date_keys parse periods)))"
    using k by (simp add: dates_today rest_as_sort [OF d] del: set_map)
  have asc: "sorted_wrt (<)
       (sort (remdups (filter (\<lambda>day. day \<noteq> tdy) (date_keys parse periods))))"
    by (simp add: strict_sorted_iff)
  show ?thesis
    using daily_as_map [of tdy ?dm] distinct_dates [OF d, of tdy] dates asc
      daily_min_le_max [of _ tdy parse periods]
    by blast
qed

theorem daily_sequence_invariant_witness:
  "getNWSWeather_dates ''2024-05-02''
     (getNWSWeather_dayMap time_Parse_example example_periods) =
     [''2024-05-02'', ''2024-05-01'']
   \<and> getNWSWeather_daily ''2024-05-02''
     (getNWSWeather_dayMap time_Parse_example example_periods) =
     [\<lparr>Dt = 1714651200, Temp_Min = 72, Temp_Max = 72, Daily_Weather = [''Cloudy'']\<rparr>,
      \<lparr>Dt = 1714564800, Temp_Min = 55, Temp_Max = 70, Daily_Weather = [''Sunny'']\<rparr>]"
proof -
  let ?dm = "getNWSWeather_dayMap time_Parse_example example_periods"
  note inv = daily_sequence_invariant [of "''2024-05-02''" time_Parse_example example_periods]
  have dates: "getNWSWeather_dates ''2024-05-02'' ?dm = [''2024-05-02'', ''2024-05-01'']"
    using inv by (simp add: example_keys)
  have "getNWSWeather_daily ''2024-05-02'' ?dm =
     map (\<lambda>day. dailyData (dayMap_at ?dm day)) (getNWSWeather_dates ''2024-05-02'' ?dm)"
    using inv by (rule conjunct1)
  then show ?thesis
    by (simp add: dates dayMap_at_def dailyData_def example_day1 example_day2)
qed

text \<open>
  Claim C8. A period whose start timestamp does not parse is dropped: it has no date, it
  is in no date's group, the map and the converted response are the same with or without
  it, and the whole fallback fetch returns the same result (value or error) as it does
  when every such period is removed from the forecast response.
\<close>

theorem unparsable_period_dropped:
  assumes "parse (StartTime p) = None"
  shows "period_key parse p = None
       \<and> p \<notin> set (periods_on parse k (xs @ p # ys))
       \<and> getNWSWeather_dayMap parse (xs @ p # ys) = getNWSWeather_dayMap parse (xs @ ys)
       \<and> getNWSWeather_convert parse tdy obs (xs @ p # ys) =
         getNWSWeather_convert parse tdy obs (xs @ ys)
       \<and> getNWSWeather
           (w\<lparr>get_forecast :=
                \<lambda>u. map_response (filter (parseable (time_Parse w))) (get_forecast w u)\<rparr>)
           la lo = getNWSWeather w la lo"
  using assms dayMap_drop_one [of parse p xs ys] getNWSWeather_filter [of w la lo]
  by (simp add: period_key_def periods_on_def getNWSWeather_convert_def)

theorem unparsable_period_dropped_witness:
  "time_Parse_example (StartTime garbled) = None
   \<and> getNWSWeather_daily ''2024-05-01''
       (getNWSWeather_dayMap time_Parse_example
          ([cool_day] @ garbled # [warm_night])) =
     [\<lparr>Dt = 1714564800, Temp_Min = 50, Temp_Max = 50, Daily_Weather = [''Rain'']\<rparr>]"
proof -
  have h: "time_Parse_example (StartTime garbled) = None"
    by (simp add: garbled_def mk_period_def time_Parse_example_def)
  have "getNWSWeather_dayMap time_Parse_example ([cool_day] @ garbled # [warm_night]) =
        getNWSWeather_dayMap time_Parse_example ([cool_day] @ [warm_night])"
    using h unparsable_period_dropped
      [where parse = time_Parse_example and p = garbled and xs = "[cool_day]"
         and ys = "[warm_night]"]
    by blast
  moreover have "getNWSWeather_daily ''2024-05-01''
       (getNWSWeather_dayMap time_Parse_example ([cool_day] @ [warm_night])) =
     [\<lparr>Dt = 1714564800, Temp_Min = 50, Temp_Max = 50, Daily_Weather = [''Rain'']\<rparr>]"
    by (simp add: run_defs cool_day_def warm_night_def)
  ultimately show ?thesis using h by simp
qed

section \<open>Claims about conversion, validation, resolution and the batch\<close>

text \<open>
  Claim C5, as the code has it. The conversion is \<open>c * 9 / 5 + 32\<close> evaluated in
  \<^verbatim>\<open>float64\<close>, each of the three operations rounded to nearest. Its result is the exact
  value whenever \<open>c * 9\<close>, \<open>c * 9 / 5\<close> and \<open>c * 9 / 5 + 32\<close> are values of the type, as at
  0 (giving 32) and at 100 (giving 212); it is not exact for every \<open>c\<close> (37 gives a value
  just below 98.6), and it is the positive infinity once \<open>c * 9\<close> reaches \<open>2 ^ 1024\<close>. When
  the four calls of the fallback chain each answer 200 with a decodable body, the fetch
  returns a response whose current temperature is the conversion of the observation's
  Celsius temperature.
\<close>

theorem celsiusToFahrenheit_float64:
  assumes "validateURL (url_Parse w) (pointsURL w la lo) = None"
    and "get_points w (pointsURL w la lo) = Status 200 (Some pointsData)"
    and "get_forecast w (Forecast_URL pointsData) = Status 200 (Some periods)"
    and "get_stations w (ObservationStations pointsData) =
           Status 200 (Some (stationID # others))"
    and "get_observation w (observationURL stationID) = Status 200 (Some obsData)"
  shows "(is_f64 (c * 9) \<and> is_f64 (c * 9 / 5) \<and> is_f64 (c * 9 / 5 + 32) \<longrightarrow>
            celsiusToFahrenheit (Finite c) = Finite (c * 9 / 5 + 32))
       \<and> (2 ^ 1024 \<le> c * 9 \<longrightarrow> celsiusToFahrenheit (Finite c) = PosInf)
       \<and> celsiusToFahrenheit (Finite 0) = Finite 32
       \<and> celsiusToFahrenheit (Finite 100) = Finite 212
       \<and> (\<exists>weather. getNWSWeather w la lo = Inr weather
             \<and> Temp (Current weather) =
                 celsiusToFahrenheit (Finite (obs_Temperature obsData)))"
proof -
  have a: "is_f64 (c * 9) \<and> is_f64 (c * 9 / 5) \<and> is_f64 (c * 9 / 5 + 32) \<longrightarrow>
            celsiusToFahrenheit (Finite c) = Finite (c * 9 / 5 + 32)"
    by (simp add: celsiusToFahrenheit_exact)
  have b: "2 ^ 1024 \<le> c * 9 \<longrightarrow> celsiusToFahrenheit (Finite c) = PosInf"
    by (simp add: celsiusToFahrenheit_overflow)
  have "celsiusToFahrenheit (Finite 0) = Finite (0 * 9 / 5 + 32)"
    using is_f64_of_int [of 0] is_f64_of_int [of 32]
    by (intro celsiusToFahrenheit_exact) simp_all
  then have z: "celsiusToFahrenheit (Finite 0) = Finite 32" by simp
  have "celsiusToFahrenheit (Finite 100) = Finite (100 * 9 / 5 + 32)"
    using is_f64_of_int [of 900] is_f64_of_int [of 180] is_f64_of_int [of 212]
    by (intro celsiusToFahrenheit_exact) simp_all
  then have h: "celsiusToFahrenheit (Finite 100) = Finite 212" by simp
  have f: "\<exists>weather. getNWSWeather w la lo = Inr weather
             \<and> Temp (Current weather) =
                 celsiusToFahrenheit (Finite (obs_Temperature obsData))"
    using assms by (simp add: getNWSWeather_def fetch_def getNWSWeather_convert_def)
  from a b z h f show ?thesis by blast
qed

theorem celsiusToFahrenheit_float64_witness:
  "celsiusToFahrenheit (Finite 20) = Finite 68
   \<and> (\<exists>weather.
        getNWSWeather (example_world ''2024-05-01'' example_periods empty_body)
          40.7128 (- 74.0060) = Inr weather
        \<and> Temp (Current weather) = Finite 68)"
proof -
  let ?w = "example_world ''2024-05-01'' example_periods empty_body"
  have 1: "validateURL (url_Parse ?w) (pointsURL ?w 40.7128 (- 74.0060)) = None"
    by (simp add: world_defs)
  have 2: "get_points ?w (pointsURL ?w 40.7128 (- 74.0060)) = Status 200 (Some example_points)"
    by (simp add: example_world_def)
  have 3: "get_forecast ?w (Forecast_URL example_points) = Status 200 (Some example_periods)"
    by (simp add: example_world_def)
  have 4: "get_stations ?w (ObservationStations example_points) =
             Status 200 (Some (''KNYC'' # []))"
    by (simp add: example_world_def)
  have 5: "get_observation ?w (observationURL ''KNYC'') =
             Status 200 (Some example_observation)"
    by (simp add: example_world_def)
  note t = celsiusToFahrenheit_float64 [OF 1 2 3 4 5, of 20]
  have r: "is_f64 (20 * 9) \<and> is_f64 (20 * 9 / 5) \<and> is_f64 (20 * 9 / 5 + 32)"
    using is_f64_of_int [of 180] is_f64_of_int [of 36] is_f64_of_int [of 68] by simp
  from t r have "celsiusToFahrenheit (Finite 20) = Finite (20 * 9 / 5 + 32)" by blast
  then have v: "celsiusToFahrenheit (Finite 20) = Finite 68" by simp
  from t obtain weather where "getNWSWeather ?w 40.7128 (- 74.0060) = Inr weather"
    and "Temp (Current weather) =
           celsiusToFahrenheit (Finite (obs_Temperature example_observation))"
    by blast
  with v show ?thesis by (auto simp: example_observation_def)
qed

theorem celsius_37_not_exact:
  "is_f64 37
   \<and> celsiusToFahrenheit (Finite 37) = Finite (3469179087958835 / 35184372088832)
   \<and> celsiusToFahrenheit (Finite 37) \<noteq> Finite (37 * 9 / 5 + 32)"
  using is_f64_of_int [of 37] by (simp add: celsiusToFahrenheit_37)

text \<open>
  Claim C6, where the code departs from it. The host check is a test for the letters the
  host name ends with and asks for no dot before them, so a host outside both providers'
  domains passes when its name ends in the letters of one: the URL
  \<^verbatim>\<open>https://evilopenweathermap.org/\<close> is accepted. Hosts inside the two domains are accepted
  and other schemes rejected, as the claim says.
\<close>

theorem suffix_admits_foreign_host:
  "url_Parse_example ''https://evilopenweathermap.org/'' =
     Some \<lparr>Scheme = ''https'', Host = ''evilopenweathermap.org''\<rparr>
   \<and> validateURL url_Parse_example ''https://evilopenweathermap.org/'' = None
   \<and> \<not> spec_host_allowed ''evilopenweathermap.org''"
  by (simp add: url_Parse_example_def validateURL_def allowedHosts_def HasSuffix_def
      spec_host_allowed_def in_domain_def suffix_Cons)

text \<open>
  Claim C7. Resolution without a credential never returns an error, for any ZIP code: a
  ZIP code of the table of ten gets that entry's coordinates and city, and every other
  one gets the one default location.
\<close>

theorem getNWSCoordinates_total:
  "getCoordinates w zipCode [] = getNWSCoordinates zipCode
   \<and> (\<exists>la lo cty. getNWSCoordinates zipCode = Inr (la, lo, cty))
   \<and> (\<forall>e. map_of zipCoords zipCode = Some e \<longrightarrow>
          getNWSCoordinates zipCode = Inr (lat e, lon e, city e))
   \<and> (zipCode \<notin> set (map fst zipCoords) \<longrightarrow>
          getNWSCoordinates zipCode = Inr (40.7128, - 74.0060, ''New York''))
   \<and> length zipCoords = 10 \<and> distinct (map fst zipCoords)"
proof -
  have n: "zipCode \<notin> set (map fst zipCoords) \<longrightarrow> map_of zipCoords zipCode = None"
    by (simp add: map_of_eq_None_iff)
  have t: "length zipCoords = 10 \<and> distinct (map fst zipCoords)"
    by (simp add: zipCoords_def)
  have c: "getCoordinates w zipCode [] = getNWSCoordinates zipCode"
    by (simp add: getCoordinates_def)
  have e: "\<exists>la lo cty. getNWSCoordinates zipCode = Inr (la, lo, cty)"
  proof (cases "map_of zipCoords zipCode")
    case None
    then have "getNWSCoordinates zipCode = Inr (40.7128, - 74.0060, ''New York'')"
      by (simp add: getNWSCoordinates_def)
    then show ?thesis by blast
  next
    case (Some e)
    then have "getNWSCoordinates zipCode = Inr (lat e, lon e, city e)"
      by (simp add: getNWSCoordinates_def)
    then show ?thesis by blast
  qed
  have s: "\<forall>e. map_of zipCoords zipCode = Some e \<longrightarrow>
          getNWSCoordinates zipCode = Inr (lat e, lon e, city e)"
    by (simp add: getNWSCoordinates_def)
  have d: "zipCode \<notin> set (map fst zipCoords) \<longrightarrow>
          getNWSCoordinates zipCode = Inr (40.7128, - 74.0060, ''New York'')"
    using n by (simp add: getNWSCoordinates_def del: set_map)
  from c e s d t show ?thesis by blast
qed

theorem getNWSCoordinates_total_witness:
  "getNWSCoordinates ''90210'' = Inr (34.0901, - 118.4065, ''Beverly Hills'')
   \<and> getNWSCoordinates ''99999'' = Inr (40.7128, - 74.0060, ''New York'')
   \<and> getNWSCoordinates ''00000'' = getNWSCoordinates ''99999''"
proof -
  have a: "map_of zipCoords ''90210'' =
             Some \<lparr>lat = 34.0901, lon = - 118.4065, city = ''Beverly Hills''\<rparr>"
    by (simp add: zipCoords_def)
  have b: "''99999'' \<notin> set (map fst zipCoords)" "''00000'' \<notin> set (map fst zipCoords)"
    by (simp_all add: zipCoords_def)
  from getNWSCoordinates_total [of undefined "''90210''"] a
  have 1: "getNWSCoordinates ''90210'' = Inr (34.0901, - 118.4065, ''Beverly Hills'')"
    by simp
  from getNWSCoordinates_total [of undefined "''99999''"] b
  have 2: "getNWSCoordinates ''99999'' = Inr (40.7128, - 74.0060, ''New York'')"
    by blast
  from getNWSCoordinates_total [of undefined "''00000''"] b
  have 3: "getNWSCoordinates ''00000'' = Inr (40.7128, - 74.0060, ''New York'')"
    by blast
  from 1 2 3 show ?thesis by simp
qed

text \<open>
  Claim C9, where the code departs from it. A location whose resolution or fetch returns
  an error is logged and skipped. An upstream answer of status 200 whose body decodes to a
  response without daily entries is not an error: the per-location step then asks for a
  slice of length \<open>- 1\<close> and panics, which ends the whole batch. This happens with the
  primary provider answering \<^verbatim>\<open>{}\<close> to a configuration that passes validation, and on the
  fallback path when the forecast has no periods.
\<close>

theorem degenerate_body_ends_batch:
  "ValidateConfig (example_config ''k'' [''90210'', ''10001'']) = None
   \<and> getWeather (example_world ''2024-05-01'' example_periods empty_body)
       34.0901 (- 118.4065) ''k'' = Inr empty_body
   \<and> GetLocationWeather (example_world ''2024-05-01'' example_periods empty_body) ''90210''
       (example_config ''k'' [''90210'', ''10001'']) = Panic MakesliceLenOutOfRange
   \<and> main_once (example_world ''2024-05-01'' example_periods empty_body)
       (example_config ''k'' [''90210'', ''10001'']) = Panic MakesliceLenOutOfRange
   \<and> ProcessLocations (example_world ''2024-05-01'' [] empty_body)
       (example_config [] [''99999'', ''10001'']) = Panic MakesliceLenOutOfRange"
proof -
  let ?w = "example_world ''2024-05-01'' example_periods empty_body"
  let ?c = "example_config ''k'' [''90210'', ''10001'']"
  have v: "ValidateConfig ?c = None"
    by (simp add: ValidateConfig_def example_config_def isValidZip_def FormatJSON_def
        FormatCSV_def FormatText_def FormatKafka_def)
  have g: "GetLocationWeather ?w ''90210'' ?c = Panic MakesliceLenOutOfRange"
    using example_primary_weather [of "''2024-05-01''" example_periods empty_body]
    by (simp add: GetLocationWeather_def example_config_def empty_body_def
        forecastDays_of_def)
  have p: "ProcessLocations ?w ?c = Panic MakesliceLenOutOfRange"
    using g by (simp add: ProcessLocations_def example_config_def)
  have "Daily (getNWSWeather_convert time_Parse_example ''2024-05-01'' example_observation [])
          = []"
    by (simp add: getNWSWeather_convert_def run_defs)
  then have "GetLocationWeather (example_world ''2024-05-01'' [] empty_body) ''99999''
      (example_config [] [''99999'', ''10001'']) = Panic MakesliceLenOutOfRange"
    using example_fallback_weather [of "''2024-05-01''" "[]" empty_body]
    by (simp add: GetLocationWeather_def example_config_def forecastDays_of_def)
  then have f: "ProcessLocations (example_world ''2024-05-01'' [] empty_body)
       (example_config [] [''99999'', ''10001'']) = Panic MakesliceLenOutOfRange"
    by (simp add: ProcessLocations_def example_config_def)
  from v g p f example_primary_weather [of "''2024-05-01''" example_periods empty_body]
  show ?thesis by (simp add: main_once_def)
qed

text \<open>
  Claim C10, where the code departs from it. The loop that fills the forecast reads
  \<^verbatim>\<open>day.Weather[0]\<close> of every entry from position 1 on without a length check, although
  the same read of the current conditions a few lines above is guarded. A response with
  two daily entries of which the second has no \<^verbatim>\<open>weather\<close> array therefore makes the
  step panic, where the claim has it return a record with one forecast entry.
\<close>

theorem day_without_description_panics:
  "getWeather (example_world ''2024-05-01'' example_periods bare_body)
     34.0901 (- 118.4065) ''k'' = Inr bare_body
   \<and> length (Daily bare_body) = 2
   \<and> GetLocationWeather (example_world ''2024-05-01'' example_periods bare_body) ''90210''
       (example_config ''k'' [''90210'']) = Panic IndexOutOfRange"
  using example_primary_weather [of "''2024-05-01''" example_periods bare_body]
  by (simp add: GetLocationWeather_def example_config_def bare_body_def bare_day_def
      full_day_def forecastDays_of_def forecast_range_def)

text \<open>
  On a response whose entries carry a description the step does what the claim says: the
  forecast is the entries from position 1 up to the capped length, in order, and the day
  count is their number (for the text format the summary must come about as well). The
  first element is left out also when it is a future day, as on the fallback path with
  no period of today.
\<close>

lemma GetLocationWeather_forecast:
  assumes "getCoordinates w zipCode (APIKey config) = Inr (la, lo, cty)"
    and "getWeather w la lo (APIKey config) = Inr weather"
    and "Daily weather \<noteq> []"
    and "\<forall>day\<in>set (take (min (length (Daily weather)) 7 - 1) (drop 1 (Daily weather))).
           Daily_Weather day \<noteq> []"
    and "OutputFormat config = FormatText \<longrightarrow>
           Weather (Current weather) \<noteq> [] \<and>
           (OPENAI_API_KEY w = [] \<or> chat w (fmt_text w cty zipCode weather) \<noteq> ChatChoices [])"
  shows "\<exists>wd. GetLocationWeather w zipCode config = Ok wd
       \<and> Forecast wd =
           map spec_forecast_entry
             (take (min (length (Daily weather)) 7 - 1) (drop 1 (Daily weather)))
       \<and> length (Forecast wd) = min (length (Daily weather)) 7 - 1
       \<and> ForecastDays wd = int (min (length (Daily weather)) 7) - 1
       \<and> ForecastDays wd = int (length (Forecast wd))"
proof -
  let ?r = "take (min (length (Daily weather)) 7 - 1) (drop 1 (Daily weather))"
  have r: "forecast_range weather = ?r" by (rule forecast_range_eq)
  have loop: "forecast_loop (forecast_range weather) = Ok (map spec_forecast_entry ?r)"
    using assms(4) by (simp only: r forecast_loop_Ok)
  have pos: "\<not> forecastDays_of weather - 1 < 0"
    using assms(3) by (cases "Daily weather") (simp_all add: forecastDays_of_def)
  have len: "length ?r = min (length (Daily weather)) 7 - 1"
    unfolding min_def by (simp; arith)
  have days: "forecastDays_of weather - 1 = int (min (length (Daily weather)) 7) - 1"
    by (simp only: forecastDays_of_min)
  have "1 \<le> length (Daily weather)"
    using assms(3) by (cases "Daily weather") simp_all
  then have cnt:
    "int (min (length (Daily weather)) 7) - 1 = int (min (length (Daily weather)) 7 - 1)"
    by arith
  have nopanic: "\<not> list_ex (\<lambda>day. Daily_Weather day = []) (forecast_range weather)"
    using assms(4) by (simp only: r list_ex_iff) blast
  have "\<exists>wd. GetLocationWeather w zipCode config = Ok wd
       \<and> Forecast wd = map spec_forecast_entry ?r
       \<and> ForecastDays wd = forecastDays_of weather - 1"
  proof (cases "OutputFormat config = FormatText")
    case False
    then show ?thesis
      by (rule GetLocationWeather_other [OF assms(1) assms(2) loop pos])
  next
    case True
    with assms(5) have cw: "Weather (Current weather) \<noteq> []"
      and ch: "OPENAI_API_KEY w = [] \<or> chat w (fmt_text w cty zipCode weather) \<noteq> ChatChoices []"
      by simp_all
    from cw nopanic have b: "buildForecastText w cty zipCode weather =
        Ok (fmt_text w cty zipCode weather)"
      by (simp add: buildForecastText_def split: list.splits)
    have "\<exists>s. summarizeForecast w (fmt_text w cty zipCode weather) = Ok s"
    proof (cases "OPENAI_API_KEY w = []")
      case True
      then show ?thesis by (simp add: summarizeForecast_def)
    next
      case False
      with ch have ne: "chat w (fmt_text w cty zipCode weather) \<noteq> ChatChoices []" by simp
      show ?thesis
      proof (cases "chat w (fmt_text w cty zipCode weather)")
        case (ChatError e)
        with False show ?thesis by (simp add: summarizeForecast_def)
      next
        case (ChatChoices cs)
        with ne obtain c rest where "cs = c # rest" by (cases cs) auto
        with ChatChoices False show ?thesis by (simp add: summarizeForecast_def)
      qed
    qed
    then obtain s where s: "summarizeForecast w (fmt_text w cty zipCode weather) = Ok s"
      by blast
    show ?thesis
      by (rule GetLocationWeather_text [OF assms(1) assms(2) loop pos True b s])
  qed
  then obtain wd where wd: "GetLocationWeather w zipCode config = Ok wd"
    and fc: "Forecast wd = map spec_forecast_entry ?r"
    and fd: "ForecastDays wd = forecastDays_of weather - 1"
    by blast
  have l: "length (Forecast wd) = min (length (Daily weather)) 7 - 1"
    by (simp only: fc length_map len)
  have d1: "ForecastDays wd = int (min (length (Daily weather)) 7) - 1"
    by (simp only: fd days)
  have d2: "ForecastDays wd = int (length (Forecast wd))"
    by (simp only: l d1 cnt)
  from wd fc l d1 d2 show ?thesis by blast
qed

lemma fallback_future_day_left_out:
  "\<exists>wd. GetLocationWeather (example_world ''2024-04-30'' example_periods empty_body)
       ''99999'' (example_config [] [''99999'']) = Ok wd
     \<and> Forecast wd =
         [\<lparr>Date = 1714651200, TempMin = 72, TempMax = 72, fc_Condition = ''Cloudy''\<rparr>]
     \<and> ForecastDays wd = 1"
proof -
  let ?w = "example_world ''2024-04-30'' example_periods empty_body"
  let ?c = "example_config [] [''99999'']"
  let ?weather =
    "getNWSWeather_convert time_Parse_example ''2024-04-30'' example_observation
       example_periods"
  have d: "Daily ?weather =
     [\<lparr>Dt = 1714564800, Temp_Min = 55, Temp_Max = 70, Daily_Weather = [''Sunny'']\<rparr>,
      \<lparr>Dt = 1714651200, Temp_Min = 72, Temp_Max = 72, Daily_Weather = [''Cloudy'']\<rparr>]"
    by (simp add: getNWSWeather_convert_def run_defs example_periods_def)
  have 1: "getCoordinates ?w ''99999'' (APIKey ?c) = Inr (40.7128, - 74.0060, ''New York'')"
    using example_fallback_weather [of "''2024-04-30''" example_periods empty_body]
    by (simp add: example_config_def)
  have 2: "getWeather ?w 40.7128 (- 74.0060) (APIKey ?c) = Inr ?weather"
    using example_fallback_weather [of "''2024-04-30''" example_periods empty_body]
    by (simp add: example_config_def)
  have 3: "Daily ?weather \<noteq> []" by (simp add: d)
  have 4: "\<forall>day\<in>set (take (min (length (Daily ?weather)) 7 - 1) (drop 1 (Daily ?weather))).
             Daily_Weather day \<noteq> []"
    by (simp add: d)
  have 5: "OutputFormat ?c = FormatText \<longrightarrow>
           Weather (Current ?weather) \<noteq> [] \<and>
           (OPENAI_API_KEY ?w = [] \<or>
            chat ?w (fmt_text ?w ''New York'' ''99999'' ?weather) \<noteq> ChatChoices [])"
    by (simp add: example_config_def FormatJSON_def FormatText_def)
  from GetLocationWeather_forecast [OF 1 2 3 4 5]
  show ?thesis by (auto simp: d spec_forecast_entry_def)
qed

end
